theory Spec2Isabelle
  imports Main
begin

section \<open>JavaScript values and the browser environment\<close>

text \<open>
  The values \<^verbatim>\<open>JSON.parse\<close> can hand to \<^verbatim>\<open>loadData\<close>. Numbers are the
  integer-valued ones (seconds, minutes and counters are integers wherever the program
  itself writes them); fractions, infinities and \<^verbatim>\<open>NaN\<close> are outside the model. A parsed
  object is its property list, looked up by name.
\<close>

datatype jsval =
    JUndefined
  | JNull
  | JBool bool
  | JNum int
  | JStr string
  | JArray "jsval list"
  | JObject "(string \<times> jsval) list"

datatype js_error = SyntaxError | TypeError

text \<open>ToBoolean, as \<^verbatim>\<open>||\<close> and \<^verbatim>\<open>if\<close> apply it.\<close>

fun truthy :: "jsval \<Rightarrow> bool" where
  "truthy JUndefined = False"
| "truthy JNull = False"
| "truthy (JBool b) = b"
| "truthy (JNum n) = (n \<noteq> 0)"
| "truthy (JStr s) = (s \<noteq> [])"
| "truthy (JArray xs) = True"
| "truthy (JObject kvs) = True"

text \<open>\<^verbatim>\<open>a || b\<close> on values.\<close>

definition js_or :: "jsval \<Rightarrow> jsval \<Rightarrow> jsval" where
  "js_or a b = (if truthy a then a else b)"

text \<open>
  \<^verbatim>\<open>data.name\<close>: reading a property of \<^verbatim>\<open>null\<close> or \<^verbatim>\<open>undefined\<close> throws a
  TypeError; an object yields the property or \<^verbatim>\<open>undefined\<close>; numbers, booleans, strings
  and arrays have none of the properties \<^verbatim>\<open>loadData\<close> reads.
\<close>

fun get_prop :: "jsval \<Rightarrow> string \<Rightarrow> js_error + jsval" where
  "get_prop JUndefined k = Inl TypeError"
| "get_prop JNull k = Inl TypeError"
| "get_prop (JObject kvs) k = Inr (case map_of kvs k of None \<Rightarrow> JUndefined | Some v \<Rightarrow> v)"
| "get_prop v k = Inr JUndefined"

text \<open>
  What \<^verbatim>\<open>localStorage.getItem('pomodoroData')\<close> returns, classified by what the two
  built-ins applied to it do: \<^verbatim>\<open>null\<close> (no item), the empty string (falsy), a
  non-empty text that \<^verbatim>\<open>JSON.parse\<close> rejects, or a non-empty text with the value it
  parses to.
\<close>

datatype item = Absent | EmptyText | Malformed | Json jsval

fun item_truthy :: "item \<Rightarrow> bool" where
  "item_truthy Absent = False"
| "item_truthy EmptyText = False"
| "item_truthy Malformed = True"
| "item_truthy (Json v) = True"

text \<open>\<^verbatim>\<open>JSON.parse\<close> of what \<^verbatim>\<open>getItem\<close> returned (of \<^verbatim>\<open>null\<close>, it reads the text null).\<close>

fun JSON_parse :: "item \<Rightarrow> js_error + jsval" where
  "JSON_parse Absent = Inr JNull"
| "JSON_parse EmptyText = Inl SyntaxError"
| "JSON_parse Malformed = Inl SyntaxError"
| "JSON_parse (Json v) = Inr v"

text \<open>A property read that is known not to throw (a later read of the same value).\<close>

definition read_prop :: "jsval \<Rightarrow> string \<Rightarrow> jsval" where
  "read_prop data k = (case get_prop data k of Inl e \<Rightarrow> JUndefined | Inr v \<Rightarrow> v)"

text \<open>
  Converting a parsed value to a number or to a string (\<^verbatim>\<open>v / 60\<close>, a template
  literal, an assignment to \<^verbatim>\<open>textContent\<close>) throws a TypeError for some values. An
  object is converted through its \<^verbatim>\<open>valueOf\<close> and \<^verbatim>\<open>toString\<close> methods; a
  property of a parsed object is never a function, so an own property of either name
  hides the inherited method. The inherited \<^verbatim>\<open>valueOf\<close> returns the object itself,
  which is no primitive, so the conversion succeeds exactly through the inherited
  \<^verbatim>\<open>toString\<close>, and throws when the object has an own property \<^verbatim>\<open>toString\<close>.
  An array is converted by joining the conversions of its elements (\<^verbatim>\<open>null\<close> is the
  empty string there). Every other value converts.
\<close>

fun conversion_throws :: "jsval \<Rightarrow> bool" where
  "conversion_throws (JObject kvs) = (map_of kvs ''toString'' \<noteq> None)"
| "conversion_throws (JArray xs) = list_ex conversion_throws xs"
| "conversion_throws v = False"

text \<open>
  The calls into the page, recorded in the order they are made. The rendered texts are
  not modelled: an entry says which method ran (and with which literal argument).
\<close>

datatype status_text = FocusTime | TakeABreak | Paused | ReadyToFocus | TimeForABreak

datatype toast_message = GreatWork | BreakOver | SettingsApplied

datatype toast_type = WorkToast | BreakToast

datatype effect =
    CardRunning bool
  | UpdateButtonState
  | UpdateStatusText status_text
  | UpdateBadge
  | UpdateDisplay
  | UpdateProgressRing
  | UpdateStats
  | ModeTheme bool
  | PlaySound
  | ShowToast toast_message toast_type
  | SoundIcons bool


section \<open>The timer object\<close>

text \<open>
  The fields of \<^verbatim>\<open>PomodoroTimer\<close> (constructor, lines 26-42, and
  \<^verbatim>\<open>backgroundTime\<close>, line 428), followed by the part of the browser the methods act
  on: the active \<^verbatim>\<open>setInterval\<close> handles whose callback is the tick, the next fresh
  handle, the number of pending \<^verbatim>\<open>setTimeout\<close> callbacks of \<^verbatim>\<open>complete\<close> (each is
  the same closure \<^verbatim>\<open>() => this.switchMode(!this.isWorkMode)\<close>), the two
  \<^verbatim>\<open>localStorage\<close> items, and the calls made into the page.

  The type parameter is the type of the numeric fields: \<^verbatim>\<open>loadData\<close> copies parsed
  values into them whatever they are, so it is modelled on \<open>jsval timer\<close>; the timer
  methods compute with them and are modelled on \<open>int timer\<close>.
\<close>

record 'v timer =
  workDuration :: 'v
  breakDuration :: 'v
  timeRemaining :: 'v
  totalTime :: 'v
  isRunning :: bool
  isWorkMode :: bool
  timerInterval :: "nat option"
  sessionCount :: 'v
  todayFocusMinutes :: 'v
  currentStreak :: 'v
  dailyGoal :: int
  soundEnabled :: bool
  backgroundTime :: "int option"
  intervals :: "nat set"
  nextHandle :: nat
  pendingSwitches :: nat
  pomodoroData :: item
  pomodoroSound :: "string option"
  calls :: "effect list"

definition emit :: "effect \<Rightarrow> 'v timer \<Rightarrow> 'v timer" where
  "emit e s = s\<lparr>calls := calls s @ [e]\<rparr>"

subsection \<open>UI updates (lines 211-272)\<close>

definition updateDisplay :: "'v timer \<Rightarrow> 'v timer" where
  "updateDisplay s = emit UpdateDisplay s"

definition updateProgressRing :: "'v timer \<Rightarrow> 'v timer" where
  "updateProgressRing s = emit UpdateProgressRing s"

definition updateButtonState :: "'v timer \<Rightarrow> 'v timer" where
  "updateButtonState s = emit UpdateButtonState s"

definition updateStatusText :: "status_text \<Rightarrow> 'v timer \<Rightarrow> 'v timer" where
  "updateStatusText t s = emit (UpdateStatusText t) s"

definition updateStats :: "'v timer \<Rightarrow> 'v timer" where
  "updateStats s = emit UpdateStats s"

definition updateBadge :: "'v timer \<Rightarrow> 'v timer" where
  "updateBadge s = emit UpdateBadge s"

definition updateUI :: "'v timer \<Rightarrow> 'v timer" where
  "updateUI s = updateBadge (updateStats (updateProgressRing (updateDisplay s)))"

definition playSound :: "'v timer \<Rightarrow> 'v timer" where
  "playSound s = emit PlaySound s"

definition showToast :: "toast_message \<Rightarrow> toast_type \<Rightarrow> 'v timer \<Rightarrow> 'v timer" where
  "showToast m t s = emit (ShowToast m t) s"

subsection \<open>Data persistence (lines 375-418)\<close>

text \<open>
  \<^verbatim>\<open>saveData\<close>: the item becomes the text of the object below, which
  \<^verbatim>\<open>JSON.parse\<close> reads back as that object. The argument \<open>today\<close> is
  \<^verbatim>\<open>new Date().toDateString()\<close> at the time of the call.
\<close>

definition saveData :: "string \<Rightarrow> int timer \<Rightarrow> int timer" where
  "saveData today s =
     s\<lparr>pomodoroData := Json (JObject
        [(''workDuration'', JNum (workDuration s)),
         (''breakDuration'', JNum (breakDuration s)),
         (''sessionCount'', JNum (sessionCount s)),
         (''todayFocusMinutes'', JNum (todayFocusMinutes s)),
         (''currentStreak'', JNum (currentStreak s)),
         (''lastDate'', JStr today)])\<rparr>"

text \<open>
  \<^verbatim>\<open>loadData\<close>, lines 387-418, in a page that holds the elements the constructor
  looks up (the page itself is not among the source files) and with storage that can
  be read. \<^verbatim>\<open>JSON.parse\<close> is called with no handler around it,
  and the first property read throws when the parsed value is \<^verbatim>\<open>null\<close>. Lines
  403-404 compute \<^verbatim>\<open>Math.round(this.workDuration / 60)\<close> and the same for the break:
  the division converts the loaded value to a number, which can throw. The values
  written to the two input elements there are not modelled.
\<close>

definition loadTimerData :: "string \<Rightarrow> jsval \<Rightarrow> jsval timer \<Rightarrow> js_error + jsval timer" where
  "loadTimerData today data s =
     (case get_prop data ''workDuration'' of
        Inl e \<Rightarrow> Inl e
      | Inr wd \<Rightarrow>
          let s = s\<lparr>workDuration := js_or wd (JNum (25 * 60))\<rparr>;
              s = s\<lparr>breakDuration := js_or (read_prop data ''breakDuration'') (JNum (5 * 60))\<rparr>;
              isToday = (read_prop data ''lastDate'' = JStr today);
              s = s\<lparr>sessionCount :=
                     (if isToday then js_or (read_prop data ''sessionCount'') (JNum 0) else JNum 0)\<rparr>;
              s = s\<lparr>todayFocusMinutes :=
                     (if isToday then js_or (read_prop data ''todayFocusMinutes'') (JNum 0) else JNum 0)\<rparr>;
              s = s\<lparr>currentStreak :=
                     (if isToday then js_or (read_prop data ''currentStreak'') (JNum 0) else JNum 0)\<rparr>
          in if conversion_throws (workDuration s) then Inl TypeError
             else if conversion_throws (breakDuration s) then Inl TypeError
             else
               let s = s\<lparr>timeRemaining := workDuration s\<rparr>;
                   s = s\<lparr>totalTime := workDuration s\<rparr>
               in Inr s)"

definition loadSound :: "'v timer \<Rightarrow> 'v timer" where
  "loadSound s =
     (if pomodoroSound s = Some ''false''
      then emit (SoundIcons False) (s\<lparr>soundEnabled := False\<rparr>)
      else s)"

definition loadData :: "string \<Rightarrow> jsval timer \<Rightarrow> js_error + jsval timer" where
  "loadData today s =
     (if item_truthy (pomodoroData s) then
        (case JSON_parse (pomodoroData s) of
           Inl e \<Rightarrow> Inl e
         | Inr data \<Rightarrow>
             (case loadTimerData today data s of
                Inl e \<Rightarrow> Inl e
              | Inr s \<Rightarrow> Inr (loadSound s)))
      else Inr (loadSound s))"

subsection \<open>Timer controls (lines 111-205)\<close>

text \<open>
  The counters are Numbers, that is doubles. The sum of two integer-valued doubles is
  the exact sum rounded to 53 significant bits, a tie going to the even one; every
  integer up to \<open>2 ^ 53\<close> in size is its own rounding. \<open>exponent n\<close> is the number of
  low bits of \<open>n\<close> the rounding drops. Sums beyond the largest double (about
  \<open>1.8 * 10 ^ 308\<close>) are outside the model. Durations and the remaining time are
  seconds, at most two hours in the configuration the program writes; they are
  computed on the integers, which is what the doubles do up to \<open>2 ^ 53\<close>.
\<close>

fun exponent :: "nat \<Rightarrow> nat" where
  "exponent n = (if n < 2 ^ 53 then 0 else Suc (exponent (n div 2)))"

declare exponent.simps [simp del]

definition round_to_double :: "int \<Rightarrow> int" where
  "round_to_double x =
     (let n = nat \<bar>x\<bar>;
          e = exponent n;
          q = n div 2 ^ e;
          r = n mod 2 ^ e;
          q' = (if 2 ^ (e - 1) < r \<or> (r = 2 ^ (e - 1) \<and> odd q) then q + 1 else q)
      in sgn x * int (q' * 2 ^ e))"

definition js_add :: "int \<Rightarrow> int \<Rightarrow> int" where
  "js_add a b = round_to_double (a + b)"

text \<open>
  \<^verbatim>\<open>Math.round(a / b)\<close> for integers \<open>a\<close> and \<open>b > 0\<close>: the integer nearest to
  the quotient, a half rounding up. For \<open>b = 60\<close> and \<open>a\<close> up to \<open>2 ^ 53\<close> in size
  the double quotient rounds to the same integer as the exact one (it is off by at
  most \<open>2 ^ -6\<close>, and the exact quotient is a half-integer or at least \<open>1 / 60\<close>
  away from one).
\<close>

definition Math_round_div :: "int \<Rightarrow> int \<Rightarrow> int" where
  "Math_round_div a b = (2 * a + b) div (2 * b)"

text \<open>
  \<^verbatim>\<open>pause\<close>: \<^verbatim>\<open>if (this.timerInterval)\<close> is false for \<^verbatim>\<open>null\<close> and for the
  handle 0; \<^verbatim>\<open>clearInterval\<close> ends the interval with that handle.
\<close>

definition pause :: "int timer \<Rightarrow> int timer" where
  "pause s =
     (let s = s\<lparr>isRunning := False\<rparr>;
          s = emit (CardRunning False) s;
          s = updateButtonState s;
          s = updateStatusText Paused s;
          s = updateBadge s
      in case timerInterval s of
           None \<Rightarrow> s
         | Some h \<Rightarrow>
             if h \<noteq> 0
             then s\<lparr>intervals := intervals s - {h}, timerInterval := None\<rparr>
             else s)"

definition switchMode :: "bool \<Rightarrow> int timer \<Rightarrow> int timer" where
  "switchMode toWorkMode s =
     (let s = s\<lparr>isWorkMode := toWorkMode\<rparr>;
          s = s\<lparr>timeRemaining := (if toWorkMode then workDuration s else breakDuration s)\<rparr>;
          s = s\<lparr>totalTime := timeRemaining s\<rparr>;
          s = emit (ModeTheme toWorkMode) s;
          s = updateDisplay s;
          s = updateProgressRing s;
          s = updateStatusText (if toWorkMode then ReadyToFocus else TimeForABreak) s
      in updateBadge s)"

definition reset :: "int timer \<Rightarrow> int timer" where
  "reset s =
     (let s = pause s;
          s = s\<lparr>timeRemaining := (if isWorkMode s then workDuration s else breakDuration s)\<rparr>;
          s = s\<lparr>totalTime := timeRemaining s\<rparr>;
          s = updateDisplay s;
          s = updateProgressRing s
      in updateStatusText ReadyToFocus s)"

definition skip :: "int timer \<Rightarrow> int timer" where
  "skip s = (let s = pause s in switchMode (\<not> isWorkMode s) s)"

text \<open>
  \<^verbatim>\<open>complete\<close>: the last line schedules the mode switch with \<^verbatim>\<open>setTimeout\<close>; the
  handle it returns is dropped.
\<close>

definition complete :: "string \<Rightarrow> int timer \<Rightarrow> int timer" where
  "complete today s =
     (let s = pause s;
          s = (if soundEnabled s then playSound s else s);
          s = (if isWorkMode s then
                 let s = s\<lparr>sessionCount := js_add (sessionCount s) 1\<rparr>;
                     s = s\<lparr>todayFocusMinutes :=
                            js_add (todayFocusMinutes s) (Math_round_div (workDuration s) 60)\<rparr>;
                     s = s\<lparr>currentStreak := js_add (currentStreak s) 1\<rparr>;
                     s = updateStats s;
                     s = saveData today s
                 in showToast GreatWork WorkToast s
               else showToast BreakOver BreakToast s)
      in s\<lparr>pendingSwitches := Suc (pendingSwitches s)\<rparr>)"

text \<open>The callback of the interval that \<^verbatim>\<open>start\<close> creates (lines 122-131).\<close>

definition tick :: "string \<Rightarrow> int timer \<Rightarrow> int timer" where
  "tick today s =
     (let s = s\<lparr>timeRemaining := timeRemaining s - 1\<rparr>
      in if timeRemaining s \<le> 0 then complete today s
         else updateProgressRing (updateDisplay s))"

text \<open>
  \<^verbatim>\<open>start\<close>: \<^verbatim>\<open>setInterval\<close> returns a fresh handle, which overwrites
  \<^verbatim>\<open>timerInterval\<close>; there is no test of \<^verbatim>\<open>isRunning\<close>.
\<close>

definition start :: "int timer \<Rightarrow> int timer" where
  "start s =
     (let s = s\<lparr>isRunning := True\<rparr>;
          s = emit (CardRunning True) s;
          s = updateButtonState s;
          s = updateStatusText (if isWorkMode s then FocusTime else TakeABreak) s;
          s = updateBadge s;
          h = nextHandle s
      in s\<lparr>timerInterval := Some h, intervals := insert h (intervals s),
            nextHandle := Suc h\<rparr>)"

definition toggle :: "int timer \<Rightarrow> int timer" where
  "toggle s = (if isRunning s then pause s else start s)"

text \<open>The callback of the deferred switch: \<^verbatim>\<open>this.switchMode(!this.isWorkMode)\<close>.\<close>

definition deferredSwitch :: "int timer \<Rightarrow> int timer" where
  "deferredSwitch s =
     switchMode (\<not> isWorkMode s) (s\<lparr>pendingSwitches := pendingSwitches s - 1\<rparr>)"

subsection \<open>Settings (lines 278-305)\<close>

text \<open>
  \<^verbatim>\<open>parseInt(text)\<close> with no radix, on a text of ASCII characters: leading white
  space is dropped, then an optional sign, then the prefix \<^verbatim>\<open>0x\<close> or \<^verbatim>\<open>0X\<close>
  (which selects radix 16), and the longest run of digits of the radix is read.
  \<open>None\<close> is \<^verbatim>\<open>NaN\<close>: no digit was found.
\<close>

definition is_white :: "char \<Rightarrow> bool" where
  "is_white c = (of_char c \<in> {9, 10, 11, 12, 13, 32 :: nat})"

definition digit_value :: "char \<Rightarrow> nat option" where
  "digit_value c =
     (let n = of_char c :: nat
      in if 48 \<le> n \<and> n \<le> 57 then Some (n - 48)
         else if 97 \<le> n \<and> n \<le> 122 then Some (n - 87)
         else if 65 \<le> n \<and> n \<le> 90 then Some (n - 55)
         else None)"

definition radix_digit :: "nat \<Rightarrow> char \<Rightarrow> nat option" where
  "radix_digit R c =
     (case digit_value c of
        None \<Rightarrow> None
      | Some d \<Rightarrow> if d < R then Some d else None)"

definition digits_value :: "nat \<Rightarrow> string \<Rightarrow> nat" where
  "digits_value R Z =
     foldl (\<lambda>a c. a * R + (case radix_digit R c of None \<Rightarrow> 0 | Some d \<Rightarrow> d)) 0 Z"

definition parseInt :: "string \<Rightarrow> int option" where
  "parseInt input =
     (let S = dropWhile is_white input;
          sign = (if take 1 S = ''-'' then - 1 else 1);
          S = (if take 1 S = ''+'' \<or> take 1 S = ''-'' then drop 1 S else S);
          hex = (take 2 S = ''0x'' \<or> take 2 S = ''0X'');
          R = (if hex then 16 else 10);
          S = (if hex then drop 2 S else S);
          Z = takeWhile (\<lambda>c. radix_digit R c \<noteq> None) S
      in if Z = [] then None else Some (sign * int (digits_value R Z)))"

text \<open>\<^verbatim>\<open>n || d\<close> for a number \<open>n\<close>: \<^verbatim>\<open>NaN\<close> and 0 are falsy.\<close>

definition num_or :: "int option \<Rightarrow> int \<Rightarrow> int" where
  "num_or n d = (case n of None \<Rightarrow> d | Some v \<Rightarrow> if v = 0 then d else v)"

text \<open>
  \<^verbatim>\<open>applySettings\<close>: the arguments are the texts of the two input elements
  (\<^verbatim>\<open>this.elements.workDuration.value\<close>, \<^verbatim>\<open>this.elements.breakDuration.value\<close>).
  Writing the validated values back to the inputs (lines 287-288) is not modelled.
\<close>

definition applySettings :: "string \<Rightarrow> string \<Rightarrow> string \<Rightarrow> int timer \<Rightarrow> int timer" where
  "applySettings workInput breakInput today s =
     (let workMin = num_or (parseInt workInput) 25;
          breakMin = num_or (parseInt breakInput) 5;
          s = s\<lparr>workDuration := max 1 (min 120 workMin) * 60\<rparr>;
          s = s\<lparr>breakDuration := max 1 (min 60 breakMin) * 60\<rparr>;
          s = reset s;
          s = saveData today s
      in showToast SettingsApplied (if isWorkMode s then WorkToast else BreakToast) s)"

definition toggleSound :: "int timer \<Rightarrow> int timer" where
  "toggleSound s =
     (let s = s\<lparr>soundEnabled := \<not> soundEnabled s\<rparr>;
          s = emit (SoundIcons (soundEnabled s)) s
      in s\<lparr>pomodoroSound := Some (if soundEnabled s then ''true'' else ''false'')\<rparr>)"

subsection \<open>Mobile optimizations (lines 424-442)\<close>

text \<open>
  The body of the second branch of the \<^verbatim>\<open>visibilitychange\<close> handler, lines
  432-440, for the elapsed whole seconds computed on line 431.
\<close>

definition resync :: "int \<Rightarrow> string \<Rightarrow> int timer \<Rightarrow> int timer" where
  "resync elapsed today s =
     (let s = s\<lparr>timeRemaining := max 0 (timeRemaining s - elapsed)\<rparr>;
          s = s\<lparr>backgroundTime := None\<rparr>
      in if timeRemaining s \<le> 0 then complete today s
         else updateProgressRing (updateDisplay s))"

text \<open>
  The handler: \<open>hidden\<close> is \<^verbatim>\<open>document.hidden\<close>, \<open>now\<close> is \<^verbatim>\<open>Date.now()\<close> in
  milliseconds. \<^verbatim>\<open>this.backgroundTime\<close> is falsy when unset, \<^verbatim>\<open>null\<close> or 0.
\<close>

definition onVisibilityChange :: "bool \<Rightarrow> int \<Rightarrow> string \<Rightarrow> int timer \<Rightarrow> int timer" where
  "onVisibilityChange hidden now today s =
     (if hidden \<and> isRunning s then s\<lparr>backgroundTime := Some now\<rparr>
      else
        (case backgroundTime s of
           None \<Rightarrow> s
         | Some t \<Rightarrow>
             if \<not> hidden \<and> t \<noteq> 0 \<and> isRunning s
             then resync ((now - t) div 1000) today s
             else s))"

subsection \<open>Construction (lines 24-76)\<close>

text \<open>
  The fields as the constructor assigns them, in a browser whose two storage items
  are \<open>stored\<close> and \<open>sound\<close>. Timer handles are positive.
\<close>

definition initial_fields :: "item \<Rightarrow> string option \<Rightarrow> jsval timer" where
  "initial_fields stored sound =
     \<lparr>workDuration = JNum (25 * 60),
      breakDuration = JNum (5 * 60),
      timeRemaining = JNum (25 * 60),
      totalTime = JNum (25 * 60),
      isRunning = False,
      isWorkMode = True,
      timerInterval = None,
      sessionCount = JNum 0,
      todayFocusMinutes = JNum 0,
      currentStreak = JNum 0,
      dailyGoal = 8,
      soundEnabled = True,
      backgroundTime = None,
      intervals = {},
      nextHandle = 1,
      pendingSwitches = 0,
      pomodoroData = stored,
      pomodoroSound = sound,
      calls = []\<rparr>"

text \<open>
  \<^verbatim>\<open>updateUI\<close> on the loaded fields: \<^verbatim>\<open>updateDisplay\<close> and
  \<^verbatim>\<open>updateProgressRing\<close> convert \<^verbatim>\<open>timeRemaining\<close> and \<^verbatim>\<open>totalTime\<close> to numbers
  (lines 219 and 231), \<^verbatim>\<open>updateStats\<close> converts the three counters to strings and
  \<^verbatim>\<open>sessionCount\<close> to a number (lines 249-254).
\<close>

definition updateUI_loaded :: "jsval timer \<Rightarrow> js_error + jsval timer" where
  "updateUI_loaded s =
     (if conversion_throws (timeRemaining s) then Inl TypeError
      else if conversion_throws (totalTime s) then Inl TypeError
      else if conversion_throws (sessionCount s) then Inl TypeError
      else if conversion_throws (todayFocusMinutes s) then Inl TypeError
      else if conversion_throws (currentStreak s) then Inl TypeError
      else Inr (updateUI s))"

definition new_PomodoroTimer :: "string \<Rightarrow> item \<Rightarrow> string option \<Rightarrow> js_error + jsval timer" where
  "new_PomodoroTimer today stored sound =
     (case loadData today (initial_fields stored sound) of
        Inl e \<Rightarrow> Inl e
      | Inr s \<Rightarrow> updateUI_loaded s)"

text \<open>
  A timer whose numeric fields all hold numbers, as the timer the methods compute
  with; \<open>None\<close> when a field holds something else.
\<close>

fun is_number :: "jsval \<Rightarrow> bool" where
  "is_number (JNum n) = True"
| "is_number v = False"

fun number_of :: "jsval \<Rightarrow> int" where
  "number_of (JNum n) = n"
| "number_of v = 0"

definition numeric :: "jsval timer \<Rightarrow> int timer option" where
  "numeric s =
     (if is_number (workDuration s) \<and> is_number (breakDuration s) \<and>
         is_number (timeRemaining s) \<and> is_number (totalTime s) \<and>
         is_number (sessionCount s) \<and> is_number (todayFocusMinutes s) \<and>
         is_number (currentStreak s)
      then Some
        \<lparr>workDuration = number_of (workDuration s),
         breakDuration = number_of (breakDuration s),
         timeRemaining = number_of (timeRemaining s),
         totalTime = number_of (totalTime s),
         isRunning = isRunning s,
         isWorkMode = isWorkMode s,
         timerInterval = timerInterval s,
         sessionCount = number_of (sessionCount s),
         todayFocusMinutes = number_of (todayFocusMinutes s),
         currentStreak = number_of (currentStreak s),
         dailyGoal = dailyGoal s,
         soundEnabled = soundEnabled s,
         backgroundTime = backgroundTime s,
         intervals = intervals s,
         nextHandle = nextHandle s,
         pendingSwitches = pendingSwitches s,
         pomodoroData = pomodoroData s,
         pomodoroSound = pomodoroSound s,
         calls = calls s\<rparr>
      else None)"

section \<open>Events\<close>

text \<open>
  What the page delivers to the timer (\<^verbatim>\<open>bindEvents\<close>, lines 82-105, and the timer
  callbacks). The browser runs the callback of an interval only while the interval is
  active, and a pending timeout callback once.
\<close>

datatype event =
    ClickStartPause
  | ClickReset
  | ClickSkip
  | ClickApplySettings string string
  | ClickModeTab bool
  | ClickSoundToggle
  | IntervalFires nat
  | TimeoutFires
  | VisibilityChange bool int

fun enabled :: "event \<Rightarrow> int timer \<Rightarrow> bool" where
  "enabled (IntervalFires h) s = (h \<in> intervals s)"
| "enabled TimeoutFires s = (0 < pendingSwitches s)"
| "enabled e s = True"

fun deliver :: "string \<Rightarrow> event \<Rightarrow> int timer \<Rightarrow> int timer" where
  "deliver today ClickStartPause s = toggle s"
| "deliver today ClickReset s = reset s"
| "deliver today ClickSkip s = skip s"
| "deliver today (ClickApplySettings w b) s = applySettings w b today s"
| "deliver today (ClickModeTab toWork) s = switchMode toWork s"
| "deliver today ClickSoundToggle s = toggleSound s"
| "deliver today (IntervalFires h) s = tick today s"
| "deliver today TimeoutFires s = deferredSwitch s"
| "deliver today (VisibilityChange hidden now) s = onVisibilityChange hidden now today s"

text \<open>A sequence of events, all on the day \<open>today\<close>; \<open>None\<close> when one cannot happen.\<close>

fun run :: "string \<Rightarrow> event list \<Rightarrow> int timer \<Rightarrow> int timer option" where
  "run today [] s = Some s"
| "run today (e # es) s = (if enabled e s then run today es (deliver today e s) else None)"

text \<open>
  The timers with number-valued fields a page can be in: constructed, then any events
  that can happen.
\<close>

inductive reachable :: "int timer \<Rightarrow> bool" where
  constructed:
    "new_PomodoroTimer today stored sound = Inr js \<Longrightarrow> numeric js = Some s \<Longrightarrow> reachable s"
| delivered:
    "reachable s \<Longrightarrow> enabled e s \<Longrightarrow> reachable (deliver today e s)"

text \<open>
  How often \<^verbatim>\<open>complete\<close> has run: each run shows exactly one of its two toasts, and
  nothing else shows them.
\<close>

fun is_completion :: "effect \<Rightarrow> bool" where
  "is_completion (ShowToast GreatWork t) = True"
| "is_completion (ShowToast BreakOver t) = True"
| "is_completion e = False"

definition completions :: "'v timer \<Rightarrow> nat" where
  "completions s = length (filter is_completion (calls s))"

text \<open>The timer of a first visit (nothing stored), and the day used in the examples.\<close>

definition a_day :: string where
  "a_day = ''Mon Nov 02 2026''"

definition fresh_timer :: "int timer" where
  "fresh_timer =
     \<lparr>workDuration = 1500, breakDuration = 300, timeRemaining = 1500, totalTime = 1500,
      isRunning = False, isWorkMode = True, timerInterval = None,
      sessionCount = 0, todayFocusMinutes = 0, currentStreak = 0,
      dailyGoal = 8, soundEnabled = True, backgroundTime = None,
      intervals = {}, nextHandle = 1, pendingSwitches = 0,
      pomodoroData = Absent, pomodoroSound = None,
      calls = [UpdateDisplay, UpdateProgressRing, UpdateStats, UpdateBadge]\<rparr>"

text \<open>
  Stored items and a timer used in the examples: a well-formed item from the day
  before, one with a duration that cannot be converted to a number, a timer whose
  session count is \<open>2 ^ 53\<close> with the item it is loaded from, and a damaged item.
\<close>

definition stored_yesterday :: "jsval timer" where
  "stored_yesterday =
     initial_fields (Json (JObject
        [(''workDuration'', JNum 3000), (''breakDuration'', JNum 600),
         (''sessionCount'', JNum 3), (''todayFocusMinutes'', JNum 150),
         (''currentStreak'', JNum 3), (''lastDate'', JStr ''Sun Nov 01 2026'')])) None"

definition stored_unconvertible :: item where
  "stored_unconvertible =
     Json (JObject
        [(''workDuration'', JObject [(''valueOf'', JNum 1), (''toString'', JNum 1)]),
         (''breakDuration'', JNum 300)])"

definition timer_at_limit :: "int timer" where
  "timer_at_limit = fresh_timer\<lparr>sessionCount := 2 ^ 53\<rparr>"

definition stored_at_limit :: item where
  "stored_at_limit =
     Json (JObject
        [(''workDuration'', JNum 1500), (''breakDuration'', JNum 300),
         (''sessionCount'', JNum (2 ^ 53)), (''todayFocusMinutes'', JNum 0),
         (''currentStreak'', JNum 0), (''lastDate'', JStr ''Mon Nov 02 2026'')])"

definition stored_damaged :: item where
  "stored_damaged =
     Json (JObject
        [(''workDuration'', JNum (- 5)), (''breakDuration'', JStr ''abc''),
         (''sessionCount'', JNull), (''currentStreak'', JNum 0),
         (''lastDate'', JStr ''Mon Nov 02 2026'')])"

text \<open>
  The tick subscriptions agree with the fields: the handle in \<^verbatim>\<open>timerInterval\<close> is
  positive, it is there exactly while \<^verbatim>\<open>isRunning\<close>, and the active intervals are
  that one handle, or none.
\<close>

definition one_subscription :: "int timer \<Rightarrow> bool" where
  "one_subscription s =
     (0 < nextHandle s \<and> timerInterval s \<noteq> Some 0 \<and>
      isRunning s = (timerInterval s \<noteq> None) \<and>
      intervals s = set_option (timerInterval s))"

definition same_subscriptions :: "int timer \<Rightarrow> int timer \<Rightarrow> bool" where
  "same_subscriptions s' s =
     (nextHandle s' = nextHandle s \<and> timerInterval s' = timerInterval s \<and>
      isRunning s' = isRunning s \<and> intervals s' = intervals s)"

section \<open>Properties\<close>

lemmas ui_defs = emit_def updateDisplay_def updateProgressRing_def updateButtonState_def
  updateStatusText_def updateStats_def updateBadge_def updateUI_def playSound_def showToast_def

lemmas control_defs = pause_def switchMode_def reset_def skip_def complete_def tick_def
  start_def toggle_def deferredSwitch_def saveData_def resync_def onVisibilityChange_def
  applySettings_def toggleSound_def

subsection \<open>Completing a session\<close>

lemma exponent_small: "n < 2 ^ 53 \<Longrightarrow> exponent n = 0"
  by (simp add: exponent.simps)

lemma exponent_one: "2 ^ 53 \<le> n \<Longrightarrow> n < 2 ^ 54 \<Longrightarrow> exponent n = 1"
  by (subst exponent.simps) (simp add: exponent_small)

lemma round_to_double_safe:
  assumes "\<bar>x\<bar> \<le> 2 ^ 53"
  shows "round_to_double x = x"
proof (cases "\<bar>x\<bar> = 9007199254740992")
  case True
  then have n: "nat \<bar>x\<bar> = 9007199254740992"
    by simp
  have e: "exponent 9007199254740992 = 1"
    by (rule exponent_one) simp_all
  have "sgn x * 9007199254740992 = x"
    using True by (cases "x < 0") (simp_all add: sgn_if)
  then show ?thesis
    by (simp add: round_to_double_def n e Let_def)
next
  case False
  with assms have "nat \<bar>x\<bar> < 2 ^ 53"
    by simp
  then have e: "exponent (nat \<bar>x\<bar>) = 0"
    by (rule exponent_small)
  show ?thesis
    by (simp add: round_to_double_def e Let_def sgn_if)
qed

lemma js_add_safe: "\<bar>a + b\<bar> \<le> 2 ^ 53 \<Longrightarrow> js_add a b = a + b"
  by (simp add: js_add_def round_to_double_safe)

lemma js_add_at_limit: "js_add 9007199254740992 1 = 9007199254740992"
proof -
  have e: "exponent 9007199254740993 = 1"
    by (rule exponent_one) simp_all
  show ?thesis
    by (simp add: js_add_def round_to_double_def e Let_def)
qed

lemma Math_round_div_nearest:
  "60 * Math_round_div w 60 - 30 \<le> w \<and> w < 60 * Math_round_div w 60 + 30"
  unfolding Math_round_div_def by presburger

lemma complete_work:
  assumes "isWorkMode s"
  shows "sessionCount (complete today s) = js_add (sessionCount s) 1 \<and>
     currentStreak (complete today s) = js_add (currentStreak s) 1 \<and>
     todayFocusMinutes (complete today s) =
       js_add (todayFocusMinutes s) (Math_round_div (workDuration s) 60) \<and>
     pomodoroData (complete today s) = Json (JObject
        [(''workDuration'', JNum (workDuration s)),
         (''breakDuration'', JNum (breakDuration s)),
         (''sessionCount'', JNum (js_add (sessionCount s) 1)),
         (''todayFocusMinutes'',
            JNum (js_add (todayFocusMinutes s) (Math_round_div (workDuration s) 60))),
         (''currentStreak'', JNum (js_add (currentStreak s) 1)),
         (''lastDate'', JStr today)])"
  using assms by (simp add: control_defs ui_defs Let_def split: option.split)

lemma complete_break:
  assumes "\<not> isWorkMode s"
  shows "sessionCount (complete today s) = sessionCount s \<and>
     currentStreak (complete today s) = currentStreak s \<and>
     todayFocusMinutes (complete today s) = todayFocusMinutes s \<and>
     pomodoroData (complete today s) = pomodoroData s"
  using assms by (simp add: control_defs ui_defs Let_def split: option.split)

lemma completions_complete: "completions (complete today s) = Suc (completions s)"
  by (simp add: completions_def control_defs ui_defs Let_def split: option.split)

lemma timeRemaining_complete: "timeRemaining (complete today s) = timeRemaining s"
  by (simp add: control_defs ui_defs Let_def split: option.split)

lemma complete_stops:
  "\<not> isRunning (complete today s) \<and>
   pendingSwitches (complete today s) = Suc (pendingSwitches s) \<and>
   isWorkMode (complete today s) = isWorkMode s"
  by (simp add: control_defs ui_defs Let_def split: option.split)

text \<open>
  Claim C2, as the code has it. The counters are doubles, so the additions are exact
  only while the numbers stay within \<open>2 ^ 53\<close> in size. For every timer whose work
  duration is within that size and whose three sums are, \<^verbatim>\<open>complete()\<close> in work mode
  adds 1 to \<^verbatim>\<open>sessionCount\<close> and to \<^verbatim>\<open>currentStreak\<close>, adds
  \<^verbatim>\<open>Math.round(workDuration / 60)\<close> (the nearest whole number of minutes) to
  \<^verbatim>\<open>todayFocusMinutes\<close>, and stores the updated numbers. In break mode, for every
  timer, the three counters and the stored item stay as they are. With a work duration
  of 1500 seconds and counters at 0, one completion in work mode gives 1 session,
  25 minutes, streak 1.
\<close>

theorem complete_updates_stats:
  "(isWorkMode s \<and> \<bar>workDuration s\<bar> \<le> 2 ^ 53 \<and>
    \<bar>sessionCount s + 1\<bar> \<le> 2 ^ 53 \<and> \<bar>currentStreak s + 1\<bar> \<le> 2 ^ 53 \<and>
    \<bar>todayFocusMinutes s + Math_round_div (workDuration s) 60\<bar> \<le> 2 ^ 53 \<longrightarrow>
      sessionCount (complete today s) = sessionCount s + 1 \<and>
      currentStreak (complete today s) = currentStreak s + 1 \<and>
      todayFocusMinutes (complete today s) =
        todayFocusMinutes s + Math_round_div (workDuration s) 60 \<and>
      60 * Math_round_div (workDuration s) 60 - 30 \<le> workDuration s \<and>
      workDuration s < 60 * Math_round_div (workDuration s) 60 + 30 \<and>
      pomodoroData (complete today s) = Json (JObject
        [(''workDuration'', JNum (workDuration s)),
         (''breakDuration'', JNum (breakDuration s)),
         (''sessionCount'', JNum (sessionCount s + 1)),
         (''todayFocusMinutes'',
            JNum (todayFocusMinutes s + Math_round_div (workDuration s) 60)),
         (''currentStreak'', JNum (currentStreak s + 1)),
         (''lastDate'', JStr today)])) \<and>
   (\<not> isWorkMode s \<longrightarrow>
      sessionCount (complete today s) = sessionCount s \<and>
      currentStreak (complete today s) = currentStreak s \<and>
      todayFocusMinutes (complete today s) = todayFocusMinutes s \<and>
      pomodoroData (complete today s) = pomodoroData s) \<and>
   (isWorkMode s \<and> workDuration s = 1500 \<and> sessionCount s = 0 \<and>
    todayFocusMinutes s = 0 \<and> currentStreak s = 0 \<longrightarrow>
      sessionCount (complete today s) = 1 \<and>
      todayFocusMinutes (complete today s) = 25 \<and>
      currentStreak (complete today s) = 1)"
proof -
  have safe: "sessionCount (complete today s) = sessionCount s + 1 \<and>
      currentStreak (complete today s) = currentStreak s + 1 \<and>
      todayFocusMinutes (complete today s) =
        todayFocusMinutes s + Math_round_div (workDuration s) 60 \<and>
      pomodoroData (complete today s) = Json (JObject
        [(''workDuration'', JNum (workDuration s)),
         (''breakDuration'', JNum (breakDuration s)),
         (''sessionCount'', JNum (sessionCount s + 1)),
         (''todayFocusMinutes'',
            JNum (todayFocusMinutes s + Math_round_div (workDuration s) 60)),
         (''currentStreak'', JNum (currentStreak s + 1)),
         (''lastDate'', JStr today)])"
    if w: "isWorkMode s" and b: "\<bar>sessionCount s + 1\<bar> \<le> 2 ^ 53"
      "\<bar>currentStreak s + 1\<bar> \<le> 2 ^ 53"
      "\<bar>todayFocusMinutes s + Math_round_div (workDuration s) 60\<bar> \<le> 2 ^ 53"
  proof -
    have "js_add (sessionCount s) 1 = sessionCount s + 1"
      "js_add (currentStreak s) 1 = currentStreak s + 1"
      "js_add (todayFocusMinutes s) (Math_round_div (workDuration s) 60) =
        todayFocusMinutes s + Math_round_div (workDuration s) 60"
      using b by (simp_all only: js_add_safe)
    with complete_work [OF w, of today] show ?thesis
      by simp
  qed
  have r: "Math_round_div 1500 60 = 25"
    by (simp add: Math_round_div_def)
  have example: "sessionCount (complete today s) = 1 \<and>
      todayFocusMinutes (complete today s) = 25 \<and>
      currentStreak (complete today s) = 1"
    if "isWorkMode s \<and> workDuration s = 1500 \<and> sessionCount s = 0 \<and>
      todayFocusMinutes s = 0 \<and> currentStreak s = 0"
    using that safe r by simp
  from safe example complete_break [of s today] Math_round_div_nearest [of "workDuration s"]
  show ?thesis
    by blast
qed

theorem complete_updates_stats_witness:
  "isWorkMode (start fresh_timer) \<and>
   workDuration (start fresh_timer) = 1500 \<and>
   sessionCount (complete a_day (start fresh_timer)) = 1 \<and>
   todayFocusMinutes (complete a_day (start fresh_timer)) = 25 \<and>
   currentStreak (complete a_day (start fresh_timer)) = 1 \<and>
   \<not> isWorkMode (switchMode False fresh_timer) \<and>
   sessionCount (complete a_day (switchMode False fresh_timer)) = 0 \<and>
   todayFocusMinutes (complete a_day (switchMode False fresh_timer)) = 0 \<and>
   currentStreak (complete a_day (switchMode False fresh_timer)) = 0"
proof -
  have w: "isWorkMode (start fresh_timer) \<and> workDuration (start fresh_timer) = 1500 \<and>
      sessionCount (start fresh_timer) = 0 \<and> todayFocusMinutes (start fresh_timer) = 0 \<and>
      currentStreak (start fresh_timer) = 0"
    by (simp add: start_def ui_defs fresh_timer_def Let_def)
  have b: "\<not> isWorkMode (switchMode False fresh_timer) \<and>
      sessionCount (switchMode False fresh_timer) = 0 \<and>
      todayFocusMinutes (switchMode False fresh_timer) = 0 \<and>
      currentStreak (switchMode False fresh_timer) = 0"
    by (simp add: switchMode_def ui_defs fresh_timer_def Let_def)
  have r: "Math_round_div 1500 60 = 25"
    by (simp add: Math_round_div_def)
  show ?thesis
    using w b r complete_updates_stats [of "start fresh_timer" a_day]
      complete_updates_stats [of "switchMode False fresh_timer" a_day]
    by simp
qed

text \<open>
  Claim C2, as stated for every state, fails where the double runs out of integers:
  a session count of \<open>2 ^ 53\<close>, which loading takes from the stored item as it is,
  stays \<open>2 ^ 53\<close> after a completed work session.
\<close>

theorem complete_count_stuck_at_limit:
  "map_sum id
     (map_option (\<lambda>s. (isWorkMode s, sessionCount s,
        sessionCount (complete ''Mon Nov 02 2026'' (start s)))) \<circ> numeric)
     (new_PomodoroTimer ''Mon Nov 02 2026'' stored_at_limit None) =
     Inr (Some (True, 2 ^ 53, 2 ^ 53)) \<and>
   isWorkMode timer_at_limit \<and>
   sessionCount timer_at_limit = 2 ^ 53 \<and>
   sessionCount (complete a_day timer_at_limit) = 2 ^ 53 \<and>
   sessionCount (complete a_day timer_at_limit) \<noteq> sessionCount timer_at_limit + 1"
proof -
  have "map_sum id
     (map_option (\<lambda>s. (isWorkMode s, sessionCount s,
        sessionCount (complete ''Mon Nov 02 2026'' (start s)))) \<circ> numeric)
     (new_PomodoroTimer ''Mon Nov 02 2026'' stored_at_limit None) =
     Inr (Some (True, 2 ^ 53, 2 ^ 53))"
    by (simp add: new_PomodoroTimer_def updateUI_loaded_def loadData_def loadTimerData_def
        loadSound_def initial_fields_def stored_at_limit_def read_prop_def js_or_def
        numeric_def ui_defs Let_def complete_def pause_def start_def saveData_def
        js_add_at_limit)
  moreover have t: "isWorkMode timer_at_limit \<and> sessionCount timer_at_limit = 2 ^ 53"
    by (simp add: timer_at_limit_def fresh_timer_def)
  moreover from t complete_work [of timer_at_limit a_day]
  have "sessionCount (complete a_day timer_at_limit) = 2 ^ 53"
    by (simp add: js_add_at_limit)
  ultimately show ?thesis
    by simp
qed

subsection \<open>Returning from the background\<close>







subsection \<open>Skip and reset\<close>

text \<open>
  Claim C8. Neither \<^verbatim>\<open>skip()\<close> nor \<^verbatim>\<open>reset()\<close> changes \<^verbatim>\<open>sessionCount\<close>,
  \<^verbatim>\<open>currentStreak\<close> or \<^verbatim>\<open>todayFocusMinutes\<close>; after \<^verbatim>\<open>reset()\<close>, in the
  same mode and with the same configuration, \<^verbatim>\<open>timeRemaining\<close> and \<^verbatim>\<open>totalTime\<close>
  both equal the configured duration of that mode.
\<close>

theorem skip_reset_keep_stats:
  "sessionCount (skip s) = sessionCount s \<and>
   currentStreak (skip s) = currentStreak s \<and>
   todayFocusMinutes (skip s) = todayFocusMinutes s \<and>
   sessionCount (reset s) = sessionCount s \<and>
   currentStreak (reset s) = currentStreak s \<and>
   todayFocusMinutes (reset s) = todayFocusMinutes s \<and>
   isWorkMode (reset s) = isWorkMode s \<and>
   workDuration (reset s) = workDuration s \<and>
   breakDuration (reset s) = breakDuration s \<and>
   timeRemaining (reset s) = (if isWorkMode s then workDuration s else breakDuration s) \<and>
   totalTime (reset s) = timeRemaining (reset s)"
  by (simp add: control_defs ui_defs Let_def split: option.split)

subsection \<open>What pause, reset and applySettings leave alone\<close>

lemma pause_keeps:
  "workDuration (pause s) = workDuration s"
  "breakDuration (pause s) = breakDuration s"
  "timeRemaining (pause s) = timeRemaining s"
  "totalTime (pause s) = totalTime s"
  "isWorkMode (pause s) = isWorkMode s"
  "sessionCount (pause s) = sessionCount s"
  "todayFocusMinutes (pause s) = todayFocusMinutes s"
  "currentStreak (pause s) = currentStreak s"
  "pomodoroData (pause s) = pomodoroData s"
  "pendingSwitches (pause s) = pendingSwitches s"
  "isRunning (pause s) = False"
  by (simp_all add: pause_def ui_defs Let_def split: option.split)

lemma reset_fields:
  "workDuration (reset s) = workDuration s"
  "breakDuration (reset s) = breakDuration s"
  "timeRemaining (reset s) = (if isWorkMode s then workDuration s else breakDuration s)"
  "totalTime (reset s) = (if isWorkMode s then workDuration s else breakDuration s)"
  "isWorkMode (reset s) = isWorkMode s"
  "sessionCount (reset s) = sessionCount s"
  "todayFocusMinutes (reset s) = todayFocusMinutes s"
  "currentStreak (reset s) = currentStreak s"
  "pomodoroData (reset s) = pomodoroData s"
  "pendingSwitches (reset s) = pendingSwitches s"
  "isRunning (reset s) = False"
  by (simp_all add: reset_def ui_defs Let_def pause_keeps)

lemma applySettings_unfold:
  "applySettings w b today s =
     showToast SettingsApplied (if isWorkMode s then WorkToast else BreakToast)
       (saveData today (reset
          (s\<lparr>workDuration := max 1 (min 120 (num_or (parseInt w) 25)) * 60,
             breakDuration := max 1 (min 60 (num_or (parseInt b) 5)) * 60\<rparr>)))"
  by (simp add: applySettings_def Let_def saveData_def reset_fields)

subsection \<open>Tick subscriptions\<close>

lemma one_subscription_same:
  "same_subscriptions s' s \<Longrightarrow> one_subscription s \<Longrightarrow> one_subscription s'"
  by (simp add: same_subscriptions_def one_subscription_def)

lemma one_subscription_pause: "one_subscription s \<Longrightarrow> one_subscription (pause s)"
  by (auto simp: one_subscription_def pause_def ui_defs Let_def split: option.splits)

lemma one_subscription_start:
  "one_subscription s \<Longrightarrow> \<not> isRunning s \<Longrightarrow> one_subscription (start s)"
  by (auto simp: one_subscription_def start_def ui_defs Let_def split: option.splits)

lemma same_switchMode: "same_subscriptions (switchMode m s) s"
  by (simp add: same_subscriptions_def switchMode_def ui_defs Let_def)

lemma same_reset: "same_subscriptions (reset s) (pause s)"
  by (simp add: same_subscriptions_def reset_def ui_defs Let_def)

lemma same_skip: "same_subscriptions (skip s) (pause s)"
  by (simp add: same_subscriptions_def skip_def switchMode_def ui_defs Let_def)

lemma same_complete: "same_subscriptions (complete today s) (pause s)"
  by (simp add: same_subscriptions_def complete_def saveData_def ui_defs Let_def)

lemma same_applySettings: "same_subscriptions (applySettings w b today s) (pause s)"
proof -
  let ?s = "s\<lparr>workDuration := max 1 (min 120 (num_or (parseInt w) 25)) * 60,
             breakDuration := max 1 (min 60 (num_or (parseInt b) 5)) * 60\<rparr>"
  have "same_subscriptions (reset ?s) (pause ?s)"
    by (rule same_reset)
  moreover have "same_subscriptions (pause ?s) (pause s)"
    by (simp add: same_subscriptions_def pause_def ui_defs Let_def split: option.split)
  ultimately show ?thesis
    unfolding applySettings_unfold
    by (simp add: same_subscriptions_def showToast_def emit_def saveData_def)
qed

lemma one_subscription_tick: "one_subscription s \<Longrightarrow> one_subscription (tick today s)"
proof -
  assume inv: "one_subscription s"
  let ?s = "s\<lparr>timeRemaining := timeRemaining s - 1\<rparr>"
  have a: "one_subscription ?s"
    using inv by (simp add: one_subscription_def)
  have "one_subscription (complete today ?s)"
    using one_subscription_same [OF same_complete one_subscription_pause [OF a]] .
  moreover have "one_subscription (updateProgressRing (updateDisplay ?s))"
    using inv by (simp add: one_subscription_def ui_defs)
  ultimately show ?thesis
    by (simp add: tick_def Let_def)
qed

lemma one_subscription_resync:
  "one_subscription s \<Longrightarrow> one_subscription (resync elapsed today s)"
proof -
  assume inv: "one_subscription s"
  have a: "one_subscription (s\<lparr>timeRemaining := x, backgroundTime := None\<rparr>)" for x
    using inv by (simp add: one_subscription_def)
  have "one_subscription (complete today (s\<lparr>timeRemaining := x, backgroundTime := None\<rparr>))"
    for x
    using one_subscription_same [OF same_complete one_subscription_pause [OF a]] .
  moreover have "one_subscription
      (updateProgressRing (updateDisplay (s\<lparr>timeRemaining := x, backgroundTime := None\<rparr>)))"
    for x
    using inv by (simp add: one_subscription_def ui_defs)
  ultimately show ?thesis
    by (simp add: resync_def Let_def)
qed

lemma one_subscription_visibility:
  "one_subscription s \<Longrightarrow> one_subscription (onVisibilityChange hidden now today s)"
  by (simp add: onVisibilityChange_def one_subscription_resync split: option.split)
    (simp add: one_subscription_def)

lemma one_subscription_deliver:
  "one_subscription s \<Longrightarrow> one_subscription (deliver today e s)"
proof (cases e)
  case ClickStartPause
  assume "one_subscription s"
  then show ?thesis
    using ClickStartPause by (simp add: toggle_def one_subscription_pause one_subscription_start)
next
  case ClickReset
  assume "one_subscription s"
  then show ?thesis
    using ClickReset one_subscription_same [OF same_reset one_subscription_pause] by simp
next
  case ClickSkip
  assume "one_subscription s"
  then show ?thesis
    using ClickSkip one_subscription_same [OF same_skip one_subscription_pause] by simp
next
  case (ClickApplySettings w b)
  assume "one_subscription s"
  then show ?thesis
    using ClickApplySettings one_subscription_same [OF same_applySettings one_subscription_pause]
    by simp
next
  case (ClickModeTab m)
  assume "one_subscription s"
  then show ?thesis
    using ClickModeTab one_subscription_same [OF same_switchMode] by simp
next
  case ClickSoundToggle
  assume "one_subscription s"
  then show ?thesis
    using ClickSoundToggle by (simp add: one_subscription_def toggleSound_def ui_defs Let_def)
next
  case (IntervalFires h)
  assume "one_subscription s"
  then show ?thesis
    using IntervalFires by (simp add: one_subscription_tick)
next
  case TimeoutFires
  assume inv: "one_subscription s"
  have "one_subscription (s\<lparr>pendingSwitches := pendingSwitches s - 1\<rparr>)"
    using inv by (simp add: one_subscription_def)
  then show ?thesis
    using TimeoutFires one_subscription_same [OF same_switchMode]
    by (simp add: deferredSwitch_def)
next
  case (VisibilityChange hidden now)
  assume "one_subscription s"
  then show ?thesis
    using VisibilityChange by (simp add: one_subscription_visibility)
qed

lemma loadTimerData_browser:
  "loadTimerData today data s = Inr s' \<Longrightarrow>
     nextHandle s' = nextHandle s \<and> timerInterval s' = timerInterval s \<and>
     isRunning s' = isRunning s \<and> intervals s' = intervals s"
  by (cases "get_prop data ''workDuration''")
    (auto simp: loadTimerData_def Let_def split: if_splits)

lemma loadSound_browser:
  "nextHandle (loadSound s) = nextHandle s \<and> timerInterval (loadSound s) = timerInterval s \<and>
     isRunning (loadSound s) = isRunning s \<and> intervals (loadSound s) = intervals s"
  by (simp add: loadSound_def emit_def)

lemma loadData_browser:
  "loadData today s = Inr s' \<Longrightarrow>
     nextHandle s' = nextHandle s \<and> timerInterval s' = timerInterval s \<and>
     isRunning s' = isRunning s \<and> intervals s' = intervals s"
  by (auto simp: loadData_def loadSound_browser split: if_splits sum.splits
      dest: loadTimerData_browser)

lemma numeric_browser:
  "numeric js = Some s \<Longrightarrow>
     nextHandle s = nextHandle js \<and> timerInterval s = timerInterval js \<and>
     isRunning s = isRunning js \<and> intervals s = intervals js"
  by (auto simp: numeric_def split: if_splits)

lemma one_subscription_constructed:
  assumes "new_PomodoroTimer today stored sound = Inr js" and "numeric js = Some s"
  shows "one_subscription s"
proof -
  from assms(1) obtain s1 where l: "loadData today (initial_fields stored sound) = Inr s1"
    and js: "js = updateUI s1"
    by (auto simp: new_PomodoroTimer_def updateUI_loaded_def split: sum.splits if_splits)
  from loadData_browser [OF l]
  have "nextHandle s1 = 1 \<and> timerInterval s1 = None \<and> \<not> isRunning s1 \<and> intervals s1 = {}"
    by (simp add: initial_fields_def)
  then have "nextHandle js = 1 \<and> timerInterval js = None \<and> \<not> isRunning js \<and>
      intervals js = {}"
    by (simp add: js ui_defs)
  with numeric_browser [OF assms(2)] show ?thesis
    by (simp add: one_subscription_def)
qed

lemma reachable_one_subscription: "reachable s \<Longrightarrow> one_subscription s"
  by (induction rule: reachable.induct)
    (auto intro: one_subscription_constructed one_subscription_deliver)

lemma fresh_timer_constructed:
  "new_PomodoroTimer today Absent None = Inr js \<Longrightarrow> numeric js = Some fresh_timer"
  by (auto simp: new_PomodoroTimer_def updateUI_loaded_def loadData_def loadSound_def
      initial_fields_def numeric_def fresh_timer_def ui_defs)

lemma reachable_fresh_timer: "reachable fresh_timer"
proof -
  obtain js where js: "new_PomodoroTimer a_day Absent None = Inr js"
    by (simp add: new_PomodoroTimer_def updateUI_loaded_def loadData_def loadSound_def
        initial_fields_def)
  from js fresh_timer_constructed [OF js] show ?thesis
    by (rule reachable.constructed)
qed

text \<open>
  Claim C9, as the code has it. \<^verbatim>\<open>start()\<close> is reached only through
  \<^verbatim>\<open>toggle()\<close>, which calls it only when the timer is not running, and pauses
  otherwise. So in every timer with number-valued fields the page can reach, a running
  timer has exactly one active tick subscription, the one in \<^verbatim>\<open>timerInterval\<close>,
  and a stopped timer has none; the click on start/pause pauses a running timer and
  starts a stopped one with one fresh subscription.
\<close>

theorem start_reached_only_when_stopped:
  assumes "reachable s"
  shows "(isRunning s \<longrightarrow>
       (\<exists>h. timerInterval s = Some h \<and> intervals s = {h}) \<and>
       deliver today ClickStartPause s = pause s \<and>
       intervals (pause s) = {}) \<and>
    (\<not> isRunning s \<longrightarrow>
       timerInterval s = None \<and> intervals s = {} \<and>
       deliver today ClickStartPause s = start s \<and>
       isRunning (start s) \<and>
       timerInterval (start s) = Some (nextHandle s) \<and>
       intervals (start s) = {nextHandle s})"
proof -
  from assms have inv: "one_subscription s"
    by (rule reachable_one_subscription)
  from inv have p: "one_subscription (pause s)"
    by (rule one_subscription_pause)
  have np: "\<not> isRunning (pause s)"
    by (simp add: pause_def ui_defs Let_def split: option.split)
  from p np have e: "intervals (pause s) = {}"
    by (simp add: one_subscription_def)
  have st: "isRunning (start s) \<and> timerInterval (start s) = Some (nextHandle s) \<and>
      intervals (start s) = insert (nextHandle s) (intervals s)"
    by (simp add: start_def ui_defs Let_def)
  show ?thesis
    using inv e st by (auto simp: one_subscription_def toggle_def)
qed

theorem start_reached_only_when_stopped_witness:
  "reachable (start fresh_timer) \<and> isRunning (start fresh_timer) \<and>
   intervals (start fresh_timer) = {1} \<and>
   deliver a_day ClickStartPause (start fresh_timer) = pause (start fresh_timer) \<and>
   intervals (pause (start fresh_timer)) = {}"
proof -
  have s: "deliver a_day ClickStartPause fresh_timer = start fresh_timer"
    by (simp add: toggle_def fresh_timer_def)
  have "reachable (deliver a_day ClickStartPause fresh_timer)"
    using reachable_fresh_timer by (rule reachable.delivered) simp
  with s have r: "reachable (start fresh_timer)"
    by simp
  have i: "isRunning (start fresh_timer) \<and> intervals (start fresh_timer) = {1}"
    by (simp add: start_def ui_defs Let_def fresh_timer_def)
  show ?thesis
    using r i start_reached_only_when_stopped [OF r, of a_day] by simp
qed

text \<open>
  Claim C9, as stated, fails: \<^verbatim>\<open>start()\<close> itself does not look at \<^verbatim>\<open>isRunning\<close>.
  Called on a running timer it leaves two active subscriptions (the first handle is
  overwritten and never cleared), and the timer then loses two seconds per second.
\<close>

theorem start_twice_two_subscriptions:
  "isRunning (start fresh_timer) \<and>
   intervals (start fresh_timer) = {1} \<and>
   intervals (start (start fresh_timer)) = {1, 2} \<and>
   timerInterval (start (start fresh_timer)) = Some 2 \<and>
   start (start fresh_timer) \<noteq> start fresh_timer \<and>
   map_option timeRemaining
     (run a_day [IntervalFires 1, IntervalFires 2] (start (start fresh_timer))) = Some 1498 \<and>
   intervals (pause (start (start fresh_timer))) = {1}"
  by (auto simp add: control_defs ui_defs Let_def fresh_timer_def)

subsection \<open>Settings\<close>

lemmas parseInt_defs = parseInt_def is_white_def radix_digit_def digit_value_def
  digits_value_def

lemma parseInt_examples:
  "parseInt ''0'' = Some 0"
  "parseInt ''200'' = Some 200"
  "parseInt ''45'' = Some 45"
  "parseInt '' -3 min'' = Some (- 3)"
  "parseInt ''0x10'' = Some 16"
  "parseInt ''abc'' = None"
  "parseInt [] = None"
  by (simp_all add: parseInt_defs)

lemma applySettings_fields:
  "workDuration (applySettings w b today s) = max 1 (min 120 (num_or (parseInt w) 25)) * 60 \<and>
   breakDuration (applySettings w b today s) = max 1 (min 60 (num_or (parseInt b) 5)) * 60 \<and>
   isWorkMode (applySettings w b today s) = isWorkMode s \<and>
   \<not> isRunning (applySettings w b today s) \<and>
   sessionCount (applySettings w b today s) = sessionCount s \<and>
   todayFocusMinutes (applySettings w b today s) = todayFocusMinutes s \<and>
   currentStreak (applySettings w b today s) = currentStreak s \<and>
   timeRemaining (applySettings w b today s) =
     (if isWorkMode s then workDuration (applySettings w b today s)
      else breakDuration (applySettings w b today s)) \<and>
   totalTime (applySettings w b today s) = timeRemaining (applySettings w b today s) \<and>
   pomodoroData (applySettings w b today s) = Json (JObject
        [(''workDuration'', JNum (workDuration (applySettings w b today s))),
         (''breakDuration'', JNum (breakDuration (applySettings w b today s))),
         (''sessionCount'', JNum (sessionCount s)),
         (''todayFocusMinutes'', JNum (todayFocusMinutes s)),
         (''currentStreak'', JNum (currentStreak s)),
         (''lastDate'', JStr today)])"
  unfolding applySettings_unfold
  by (simp add: showToast_def emit_def saveData_def reset_fields)

text \<open>
  Claim C5, as the code has it. \<^verbatim>\<open>applySettings\<close> reads each input with
  \<^verbatim>\<open>parseInt\<close>; a non-numeric input and the input 0 are replaced by the default
  (25 minutes of work, 5 of break), every other number is clamped to 1..120 (work) or
  1..60 (break) and converted to seconds. The configuration is stored, the mode and
  the counters are kept, the timer is stopped, and \<^verbatim>\<open>timeRemaining\<close> and
  \<^verbatim>\<open>totalTime\<close> both equal the new duration of the current mode.
\<close>

theorem applySettings_clamps_or_defaults:
  fixes w b today :: string and s :: "int timer"
  defines "s' \<equiv> applySettings w b today s"
  shows "(\<forall>n. parseInt w = Some n \<and> n \<noteq> 0 \<longrightarrow> workDuration s' = max 1 (min 120 n) * 60) \<and>
    (parseInt w = Some 0 \<or> parseInt w = None \<longrightarrow> workDuration s' = 25 * 60) \<and>
    (\<forall>n. parseInt b = Some n \<and> n \<noteq> 0 \<longrightarrow> breakDuration s' = max 1 (min 60 n) * 60) \<and>
    (parseInt b = Some 0 \<or> parseInt b = None \<longrightarrow> breakDuration s' = 5 * 60) \<and>
    60 \<le> workDuration s' \<and> workDuration s' \<le> 7200 \<and>
    60 \<le> breakDuration s' \<and> breakDuration s' \<le> 3600 \<and>
    isWorkMode s' = isWorkMode s \<and> \<not> isRunning s' \<and>
    timeRemaining s' = (if isWorkMode s then workDuration s' else breakDuration s') \<and>
    totalTime s' = timeRemaining s' \<and>
    sessionCount s' = sessionCount s \<and>
    todayFocusMinutes s' = todayFocusMinutes s \<and>
    currentStreak s' = currentStreak s \<and>
    pomodoroData s' = Json (JObject
        [(''workDuration'', JNum (workDuration s')),
         (''breakDuration'', JNum (breakDuration s')),
         (''sessionCount'', JNum (sessionCount s)),
         (''todayFocusMinutes'', JNum (todayFocusMinutes s)),
         (''currentStreak'', JNum (currentStreak s)),
         (''lastDate'', JStr today)])"
proof -
  note f = applySettings_fields [of w b today s, folded s'_def]
  have wd: "workDuration s' = max 1 (min 120 (num_or (parseInt w) 25)) * 60"
    and bd: "breakDuration s' = max 1 (min 60 (num_or (parseInt b) 5)) * 60"
    using f by simp_all
  have "(\<forall>n. parseInt w = Some n \<and> n \<noteq> 0 \<longrightarrow> workDuration s' = max 1 (min 120 n) * 60) \<and>
    (parseInt w = Some 0 \<or> parseInt w = None \<longrightarrow> workDuration s' = 25 * 60) \<and>
    60 \<le> workDuration s' \<and> workDuration s' \<le> 7200"
    unfolding wd by (auto simp: num_or_def)
  moreover have "(\<forall>n. parseInt b = Some n \<and> n \<noteq> 0 \<longrightarrow>
      breakDuration s' = max 1 (min 60 n) * 60) \<and>
    (parseInt b = Some 0 \<or> parseInt b = None \<longrightarrow> breakDuration s' = 5 * 60) \<and>
    60 \<le> breakDuration s' \<and> breakDuration s' \<le> 3600"
    unfolding bd by (auto simp: num_or_def)
  ultimately show ?thesis
    using f by simp
qed

theorem applySettings_clamps_or_defaults_witness:
  "parseInt ''0'' = Some 0 \<and> parseInt ''200'' = Some 200 \<and>
   workDuration (applySettings ''0'' ''200'' a_day fresh_timer) = 1500 \<and>
   breakDuration (applySettings ''0'' ''200'' a_day fresh_timer) = 3600 \<and>
   timeRemaining (applySettings ''0'' ''200'' a_day fresh_timer) = 1500 \<and>
   parseInt ''45'' = Some 45 \<and> parseInt ''abc'' = None \<and>
   workDuration (applySettings ''45'' ''abc'' a_day fresh_timer) = 2700 \<and>
   breakDuration (applySettings ''45'' ''abc'' a_day fresh_timer) = 300"
proof -
  have m: "isWorkMode fresh_timer"
    by (simp add: fresh_timer_def)
  show ?thesis
    using m parseInt_examples
      applySettings_clamps_or_defaults [of "''0''" "''200''" a_day fresh_timer]
      applySettings_clamps_or_defaults [of "''45''" "''abc''" a_day fresh_timer]
    by simp
qed

text \<open>
  Claim C5, as stated, fails at its own example: the work input 0 is not clamped to
  1 minute (60 seconds); \<^verbatim>\<open>parseInt("0") || 25\<close> is 25, so the work duration becomes
  1500 seconds.
\<close>

theorem applySettings_zero_is_default:
  "parseInt ''0'' = Some 0 \<and>
   workDuration (applySettings ''0'' ''200'' a_day fresh_timer) = 1500 \<and>
   workDuration (applySettings ''0'' ''200'' a_day fresh_timer) \<noteq> max 1 (min 120 0) * 60 \<and>
   breakDuration (applySettings ''0'' ''200'' a_day fresh_timer) = 3600"
  by (simp add: applySettings_fields parseInt_examples num_or_def)

subsection \<open>The first visit\<close>

text \<open>
  Claim C10. With nothing stored, the constructor yields a timer whose fields are
  numbers: 1500 seconds of work, 300 of break, work mode, not running, and
  \<^verbatim>\<open>timeRemaining\<close> and \<^verbatim>\<open>totalTime\<close> equal to the work duration. In
  \<^verbatim>\<open>applySettings\<close>, an input that \<^verbatim>\<open>parseInt\<close> reads as \<^verbatim>\<open>NaN\<close> is replaced by
  25 (work) or 5 (break) minutes, which the clamp leaves as they are.
\<close>

theorem first_visit_defaults:
  "(\<exists>js s. new_PomodoroTimer today Absent sound = Inr js \<and> numeric js = Some s \<and>
      workDuration s = 1500 \<and> breakDuration s = 300 \<and>
      isWorkMode s \<and> \<not> isRunning s \<and>
      timeRemaining s = workDuration s \<and> totalTime s = workDuration s \<and>
      sessionCount s = 0 \<and> todayFocusMinutes s = 0 \<and> currentStreak s = 0) \<and>
   (parseInt w = None \<longrightarrow>
      num_or (parseInt w) 25 = 25 \<and>
      workDuration (applySettings w b today t) = 25 * 60) \<and>
   (parseInt b = None \<longrightarrow>
      num_or (parseInt b) 5 = 5 \<and>
      breakDuration (applySettings w b today t) = 5 * 60)"
proof (intro conjI impI)
  show "\<exists>js s. new_PomodoroTimer today Absent sound = Inr js \<and> numeric js = Some s \<and>
      workDuration s = 1500 \<and> breakDuration s = 300 \<and>
      isWorkMode s \<and> \<not> isRunning s \<and>
      timeRemaining s = workDuration s \<and> totalTime s = workDuration s \<and>
      sessionCount s = 0 \<and> todayFocusMinutes s = 0 \<and> currentStreak s = 0"
    by (simp add: new_PomodoroTimer_def updateUI_loaded_def loadData_def loadSound_def
        initial_fields_def numeric_def ui_defs)
qed (simp_all add: applySettings_fields num_or_def)

theorem first_visit_defaults_witness:
  "parseInt ''abc'' = None \<and> parseInt [] = None \<and>
   workDuration (applySettings ''abc'' [] a_day fresh_timer) = 1500 \<and>
   breakDuration (applySettings ''abc'' [] a_day fresh_timer) = 300"
  using parseInt_examples first_visit_defaults [of a_day None "''abc''" "[]" fresh_timer]
  by simp

subsection \<open>Loading\<close>

lemma conversion_throws_truthy: "conversion_throws v \<Longrightarrow> truthy v"
  by (cases v) simp_all

lemma conversion_throws_js_or:
  "conversion_throws (js_or v (JNum d)) = conversion_throws v"
  using conversion_throws_truthy [of v] by (auto simp: js_or_def)

lemma loadTimerData_throws:
  assumes "get_prop data ''workDuration'' = Inr wd"
    and "conversion_throws wd \<or> conversion_throws (read_prop data ''breakDuration'')"
  shows "loadTimerData today data s = Inl TypeError"
  using assms by (auto simp: loadTimerData_def Let_def conversion_throws_js_or)

lemma loadTimerData_fields:
  assumes "get_prop data ''workDuration'' = Inr wd"
    and "\<not> conversion_throws wd"
    and "\<not> conversion_throws (read_prop data ''breakDuration'')"
  shows "\<exists>s'. loadTimerData today data s = Inr s' \<and>
      workDuration s' = js_or wd (JNum 1500) \<and>
      breakDuration s' = js_or (read_prop data ''breakDuration'') (JNum 300) \<and>
      timeRemaining s' = js_or wd (JNum 1500) \<and>
      totalTime s' = js_or wd (JNum 1500) \<and>
      sessionCount s' =
        (if read_prop data ''lastDate'' = JStr today
         then js_or (read_prop data ''sessionCount'') (JNum 0) else JNum 0) \<and>
      todayFocusMinutes s' =
        (if read_prop data ''lastDate'' = JStr today
         then js_or (read_prop data ''todayFocusMinutes'') (JNum 0) else JNum 0) \<and>
      currentStreak s' =
        (if read_prop data ''lastDate'' = JStr today
         then js_or (read_prop data ''currentStreak'') (JNum 0) else JNum 0)"
  using assms by (simp add: loadTimerData_def Let_def conversion_throws_js_or)

lemma loadSound_fields:
  "workDuration (loadSound s) = workDuration s \<and>
   breakDuration (loadSound s) = breakDuration s \<and>
   timeRemaining (loadSound s) = timeRemaining s \<and>
   totalTime (loadSound s) = totalTime s \<and>
   sessionCount (loadSound s) = sessionCount s \<and>
   todayFocusMinutes (loadSound s) = todayFocusMinutes s \<and>
   currentStreak (loadSound s) = currentStreak s"
  by (simp add: loadSound_def emit_def)

lemma loadData_unconvertible:
  assumes "pomodoroData s = Json data" and "get_prop data ''workDuration'' = Inr wd"
    and "conversion_throws wd \<or> conversion_throws (read_prop data ''breakDuration'')"
  shows "loadData today s = Inl TypeError"
  using assms(1) loadTimerData_throws [OF assms(2,3), of today s]
  by (simp add: loadData_def)

lemma loadData_parsed:
  assumes "pomodoroData s = Json data" and "get_prop data ''workDuration'' = Inr wd"
    and "\<not> conversion_throws wd"
    and "\<not> conversion_throws (read_prop data ''breakDuration'')"
  shows "\<exists>s'. loadData today s = Inr s' \<and>
      workDuration s' = js_or wd (JNum 1500) \<and>
      breakDuration s' = js_or (read_prop data ''breakDuration'') (JNum 300) \<and>
      timeRemaining s' = js_or wd (JNum 1500) \<and>
      totalTime s' = js_or wd (JNum 1500) \<and>
      sessionCount s' =
        (if read_prop data ''lastDate'' = JStr today
         then js_or (read_prop data ''sessionCount'') (JNum 0) else JNum 0) \<and>
      todayFocusMinutes s' =
        (if read_prop data ''lastDate'' = JStr today
         then js_or (read_prop data ''todayFocusMinutes'') (JNum 0) else JNum 0) \<and>
      currentStreak s' =
        (if read_prop data ''lastDate'' = JStr today
         then js_or (read_prop data ''currentStreak'') (JNum 0) else JNum 0)"
proof -
  from loadTimerData_fields [OF assms(2,3,4), of today s]
  obtain s1 where s1: "loadTimerData today data s = Inr s1"
      "workDuration s1 = js_or wd (JNum 1500)"
      "breakDuration s1 = js_or (read_prop data ''breakDuration'') (JNum 300)"
      "timeRemaining s1 = js_or wd (JNum 1500)"
      "totalTime s1 = js_or wd (JNum 1500)"
      "sessionCount s1 =
        (if read_prop data ''lastDate'' = JStr today
         then js_or (read_prop data ''sessionCount'') (JNum 0) else JNum 0)"
      "todayFocusMinutes s1 =
        (if read_prop data ''lastDate'' = JStr today
         then js_or (read_prop data ''todayFocusMinutes'') (JNum 0) else JNum 0)"
      "currentStreak s1 =
        (if read_prop data ''lastDate'' = JStr today
         then js_or (read_prop data ''currentStreak'') (JNum 0) else JNum 0)"
    by blast
  have "loadData today s = Inr (loadSound s1)"
    using assms(1) s1(1) by (simp add: loadData_def)
  then show ?thesis
    using s1 by (simp add: loadSound_fields)
qed

lemma stats_independent_of_date:
  "sessionCount (deliver d1 e t) = sessionCount (deliver d2 e t) \<and>
   todayFocusMinutes (deliver d1 e t) = todayFocusMinutes (deliver d2 e t) \<and>
   currentStreak (deliver d1 e t) = currentStreak (deliver d2 e t)"
proof -
  have c: "sessionCount (complete d1 s) = sessionCount (complete d2 s) \<and>
      todayFocusMinutes (complete d1 s) = todayFocusMinutes (complete d2 s) \<and>
      currentStreak (complete d1 s) = currentStreak (complete d2 s)" for s
    by (cases "isWorkMode s") (simp_all add: complete_work complete_break)
  show ?thesis
  proof (cases e)
    case (ClickApplySettings w b)
    then show ?thesis by (simp add: applySettings_fields)
  next
    case (IntervalFires h)
    then show ?thesis by (simp add: tick_def Let_def c ui_defs)
  next
    case (VisibilityChange hidden now)
    then show ?thesis
      by (simp add: onVisibilityChange_def resync_def Let_def c ui_defs split: option.split)
  qed simp_all
qed

text \<open>
  Claim C4. Loading a stored object whose durations are non-zero numbers and whose
  counters are numbers keeps the two durations; it keeps the three counters when the
  stored \<^verbatim>\<open>lastDate\<close> is today's date string, and sets all three to 0 when it is
  anything else. Nothing but loading looks at the date: whatever event is delivered
  to a timer, the three counters afterwards are the same on any two days.
\<close>

theorem loadData_daily_rollover:
  assumes "pomodoroData s = Json data"
    and "get_prop data ''workDuration'' = Inr (JNum wd)" and "wd \<noteq> 0"
    and "get_prop data ''breakDuration'' = Inr (JNum bd)" and "bd \<noteq> 0"
    and "get_prop data ''sessionCount'' = Inr (JNum sc)"
    and "get_prop data ''todayFocusMinutes'' = Inr (JNum fm)"
    and "get_prop data ''currentStreak'' = Inr (JNum cs)"
    and "get_prop data ''lastDate'' = Inr lastDate"
  shows "\<exists>s'. loadData today s = Inr s' \<and>
      workDuration s' = JNum wd \<and> breakDuration s' = JNum bd \<and>
      (lastDate = JStr today \<longrightarrow>
         sessionCount s' = JNum sc \<and> currentStreak s' = JNum cs \<and>
         todayFocusMinutes s' = JNum fm) \<and>
      (lastDate \<noteq> JStr today \<longrightarrow>
         sessionCount s' = JNum 0 \<and> currentStreak s' = JNum 0 \<and>
         todayFocusMinutes s' = JNum 0) \<and>
      (\<forall>e t d1 d2.
         sessionCount (deliver d1 e t) = sessionCount (deliver d2 e t) \<and>
         currentStreak (deliver d1 e t) = currentStreak (deliver d2 e t) \<and>
         todayFocusMinutes (deliver d1 e t) = todayFocusMinutes (deliver d2 e t))"
proof -
  have r: "read_prop data ''breakDuration'' = JNum bd"
    "read_prop data ''sessionCount'' = JNum sc"
    "read_prop data ''todayFocusMinutes'' = JNum fm"
    "read_prop data ''currentStreak'' = JNum cs"
    "read_prop data ''lastDate'' = lastDate"
    using assms by (simp_all add: read_prop_def)
  have o: "js_or (JNum wd) (JNum 1500) = JNum wd" "js_or (JNum bd) (JNum 300) = JNum bd"
    "js_or (JNum sc) (JNum 0) = JNum sc" "js_or (JNum fm) (JNum 0) = JNum fm"
    "js_or (JNum cs) (JNum 0) = JNum cs"
    using assms(3,5) by (simp_all add: js_or_def)
  have c: "\<not> conversion_throws (JNum wd)"
    "\<not> conversion_throws (read_prop data ''breakDuration'')"
    unfolding r by simp_all
  from loadData_parsed [OF assms(1,2) c, of today]
  show ?thesis
    unfolding r o using stats_independent_of_date by auto
qed

theorem loadData_daily_rollover_witness:
  "map_sum id (\<lambda>s. (workDuration s, breakDuration s, sessionCount s, todayFocusMinutes s,
       currentStreak s)) (loadData ''Sun Nov 01 2026'' stored_yesterday) =
     Inr (JNum 3000, JNum 600, JNum 3, JNum 150, JNum 3) \<and>
   map_sum id (\<lambda>s. (workDuration s, breakDuration s, sessionCount s, todayFocusMinutes s,
       currentStreak s)) (loadData ''Mon Nov 02 2026'' stored_yesterday) =
     Inr (JNum 3000, JNum 600, JNum 0, JNum 0, JNum 0)"
proof -
  let ?data = "JObject
        [(''workDuration'', JNum 3000), (''breakDuration'', JNum 600),
         (''sessionCount'', JNum 3), (''todayFocusMinutes'', JNum 150),
         (''currentStreak'', JNum 3), (''lastDate'', JStr ''Sun Nov 01 2026'')]"
  have p: "pomodoroData stored_yesterday = Json ?data"
    by (simp add: stored_yesterday_def initial_fields_def)
  have g: "get_prop ?data ''workDuration'' = Inr (JNum 3000)"
    "get_prop ?data ''breakDuration'' = Inr (JNum 600)"
    "get_prop ?data ''sessionCount'' = Inr (JNum 3)"
    "get_prop ?data ''todayFocusMinutes'' = Inr (JNum 150)"
    "get_prop ?data ''currentStreak'' = Inr (JNum 3)"
    "get_prop ?data ''lastDate'' = Inr (JStr ''Sun Nov 01 2026'')"
    by simp_all
  have n: "(3000::int) \<noteq> 0" "(600::int) \<noteq> 0"
    by simp_all
  from loadData_daily_rollover [OF p g(1) n(1) g(2) n(2) g(3) g(4) g(5) g(6),
      of "''Sun Nov 01 2026''"]
  have same: "map_sum id (\<lambda>s. (workDuration s, breakDuration s, sessionCount s,
       todayFocusMinutes s, currentStreak s)) (loadData ''Sun Nov 01 2026'' stored_yesterday) =
     Inr (JNum 3000, JNum 600, JNum 3, JNum 150, JNum 3)"
    by auto
  from loadData_daily_rollover [OF p g(1) n(1) g(2) n(2) g(3) g(4) g(5) g(6),
      of "''Mon Nov 02 2026''"]
  have other: "map_sum id (\<lambda>s. (workDuration s, breakDuration s, sessionCount s,
       todayFocusMinutes s, currentStreak s)) (loadData ''Mon Nov 02 2026'' stored_yesterday) =
     Inr (JNum 3000, JNum 600, JNum 0, JNum 0, JNum 0)"
    by auto
  from same other show ?thesis ..
qed

text \<open>
  Claim C6, as the code has it. With no stored item, or an empty one, nothing is
  replaced and the constructor's values stay. Otherwise each field that is missing or
  falsy (\<^verbatim>\<open>null\<close>, 0, \<^verbatim>\<open>false\<close>, the empty string) becomes its default, and every
  other stored value is taken as it is, a negative number or a non-empty string
  included (the counters only when \<^verbatim>\<open>lastDate\<close> is today's date string, and 0
  otherwise). \<^verbatim>\<open>loadData\<close> raises exactly when the stored text does not parse
  (SyntaxError), when it parses to \<^verbatim>\<open>null\<close> (TypeError; \<^verbatim>\<open>JSON.parse\<close> never
  yields \<^verbatim>\<open>undefined\<close>), or when the stored work or break duration cannot be
  converted to a number (TypeError on lines 403-404: an object with an own property
  \<^verbatim>\<open>toString\<close>, or an array that holds one).
\<close>

theorem loadData_defaults_for_falsy_fields:
  "(\<not> item_truthy (pomodoroData s) \<longrightarrow> loadData today s = Inr (loadSound s)) \<and>
   (pomodoroData s = Malformed \<longrightarrow> loadData today s = Inl SyntaxError) \<and>
   (pomodoroData s = Json JNull \<longrightarrow> loadData today s = Inl TypeError) \<and>
   (\<forall>data. pomodoroData s = Json data \<and>
        (conversion_throws (read_prop data ''workDuration'') \<or>
         conversion_throws (read_prop data ''breakDuration'')) \<longrightarrow>
      loadData today s = Inl TypeError) \<and>
   ((\<exists>e. loadData today s = Inl e) \<longleftrightarrow>
      pomodoroData s = Malformed \<or> pomodoroData s = Json JNull \<or>
      pomodoroData s = Json JUndefined \<or>
      (\<exists>data. pomodoroData s = Json data \<and>
         (conversion_throws (read_prop data ''workDuration'') \<or>
          conversion_throws (read_prop data ''breakDuration'')))) \<and>
   (\<forall>data. pomodoroData s = Json data \<and> data \<noteq> JNull \<and> data \<noteq> JUndefined \<and>
        \<not> conversion_throws (read_prop data ''workDuration'') \<and>
        \<not> conversion_throws (read_prop data ''breakDuration'') \<longrightarrow>
      (\<exists>s'. loadData today s = Inr s' \<and>
         workDuration s' =
           (if truthy (read_prop data ''workDuration'')
            then read_prop data ''workDuration'' else JNum (25 * 60)) \<and>
         breakDuration s' =
           (if truthy (read_prop data ''breakDuration'')
            then read_prop data ''breakDuration'' else JNum (5 * 60)) \<and>
         sessionCount s' =
           (if read_prop data ''lastDate'' = JStr today \<and>
               truthy (read_prop data ''sessionCount'')
            then read_prop data ''sessionCount'' else JNum 0) \<and>
         todayFocusMinutes s' =
           (if read_prop data ''lastDate'' = JStr today \<and>
               truthy (read_prop data ''todayFocusMinutes'')
            then read_prop data ''todayFocusMinutes'' else JNum 0) \<and>
         currentStreak s' =
           (if read_prop data ''lastDate'' = JStr today \<and>
               truthy (read_prop data ''currentStreak'')
            then read_prop data ''currentStreak'' else JNum 0) \<and>
         timeRemaining s' = workDuration s' \<and> totalTime s' = workDuration s'))"
proof -
  have absent: "\<not> item_truthy (pomodoroData s) \<longrightarrow> loadData today s = Inr (loadSound s)"
    by (simp add: loadData_def)
  have malformed: "pomodoroData s = Malformed \<longrightarrow> loadData today s = Inl SyntaxError"
    by (simp add: loadData_def)
  have null: "pomodoroData s = Json JNull \<longrightarrow> loadData today s = Inl TypeError"
    by (simp add: loadData_def loadTimerData_def)
  have undef: "pomodoroData s = Json JUndefined \<longrightarrow> loadData today s = Inl TypeError"
    by (simp add: loadData_def loadTimerData_def)
  have g: "get_prop data ''workDuration'' = Inr (read_prop data ''workDuration'')"
    if "data \<noteq> JNull" "data \<noteq> JUndefined" for data
    using that by (cases data) (simp_all add: read_prop_def)
  have nullish: "\<not> conversion_throws (read_prop data k)"
    if "data = JNull \<or> data = JUndefined" for data k
    using that by (auto simp: read_prop_def)
  have throws: "loadData today s = Inl TypeError"
    if d: "pomodoroData s = Json data"
      "conversion_throws (read_prop data ''workDuration'') \<or>
       conversion_throws (read_prop data ''breakDuration'')" for data
  proof -
    from d(2) nullish [of data] have "data \<noteq> JNull" "data \<noteq> JUndefined"
      by blast+
    from loadData_unconvertible [OF d(1) g [OF this] d(2)] show ?thesis .
  qed
  have parsed: "\<exists>s'. loadData today s = Inr s' \<and>
         workDuration s' =
           (if truthy (read_prop data ''workDuration'')
            then read_prop data ''workDuration'' else JNum (25 * 60)) \<and>
         breakDuration s' =
           (if truthy (read_prop data ''breakDuration'')
            then read_prop data ''breakDuration'' else JNum (5 * 60)) \<and>
         sessionCount s' =
           (if read_prop data ''lastDate'' = JStr today \<and>
               truthy (read_prop data ''sessionCount'')
            then read_prop data ''sessionCount'' else JNum 0) \<and>
         todayFocusMinutes s' =
           (if read_prop data ''lastDate'' = JStr today \<and>
               truthy (read_prop data ''todayFocusMinutes'')
            then read_prop data ''todayFocusMinutes'' else JNum 0) \<and>
         currentStreak s' =
           (if read_prop data ''lastDate'' = JStr today \<and>
               truthy (read_prop data ''currentStreak'')
            then read_prop data ''currentStreak'' else JNum 0) \<and>
         timeRemaining s' = workDuration s' \<and> totalTime s' = workDuration s'"
    if d: "pomodoroData s = Json data" "data \<noteq> JNull" "data \<noteq> JUndefined"
      "\<not> conversion_throws (read_prop data ''workDuration'')"
      "\<not> conversion_throws (read_prop data ''breakDuration'')" for data
  proof -
    have dur: "js_or x (JNum 1500) = (if truthy x then x else JNum (25 * 60))"
      "js_or x (JNum 300) = (if truthy x then x else JNum (5 * 60))" for x
      by (simp_all add: js_or_def)
    have cnt: "(if A then js_or x (JNum 0) else JNum 0) =
        (if A \<and> truthy x then x else JNum 0)" for A x
      by (simp add: js_or_def)
    from loadData_parsed [OF d(1) g [OF d(2,3)] d(4,5), of today]
    obtain s' where s': "loadData today s = Inr s'"
      "workDuration s' = js_or (read_prop data ''workDuration'') (JNum 1500)"
      "breakDuration s' = js_or (read_prop data ''breakDuration'') (JNum 300)"
      "timeRemaining s' = js_or (read_prop data ''workDuration'') (JNum 1500)"
      "totalTime s' = js_or (read_prop data ''workDuration'') (JNum 1500)"
      "sessionCount s' =
        (if read_prop data ''lastDate'' = JStr today
         then js_or (read_prop data ''sessionCount'') (JNum 0) else JNum 0)"
      "todayFocusMinutes s' =
        (if read_prop data ''lastDate'' = JStr today
         then js_or (read_prop data ''todayFocusMinutes'') (JNum 0) else JNum 0)"
      "currentStreak s' =
        (if read_prop data ''lastDate'' = JStr today
         then js_or (read_prop data ''currentStreak'') (JNum 0) else JNum 0)"
      by blast
    note f = s' [unfolded dur cnt]
    show ?thesis
      by (intro exI [of _ s'] conjI) (simp_all only: f)
  qed
  have raises: "(\<exists>e. loadData today s = Inl e) \<longleftrightarrow>
      pomodoroData s = Malformed \<or> pomodoroData s = Json JNull \<or>
      pomodoroData s = Json JUndefined \<or>
      (\<exists>data. pomodoroData s = Json data \<and>
         (conversion_throws (read_prop data ''workDuration'') \<or>
          conversion_throws (read_prop data ''breakDuration'')))"
  proof (cases "pomodoroData s")
    case Absent
    then show ?thesis using absent by simp
  next
    case EmptyText
    then show ?thesis using absent by simp
  next
    case Malformed
    then show ?thesis using malformed by simp
  next
    case (Json data)
    show ?thesis
    proof (cases "data = JNull \<or> data = JUndefined")
      case True
      then show ?thesis using Json null undef by auto
    next
      case False
      show ?thesis
      proof (cases "conversion_throws (read_prop data ''workDuration'') \<or>
          conversion_throws (read_prop data ''breakDuration'')")
        case True
        with throws [OF Json] Json show ?thesis by auto
      next
        case no: False
        with parsed [of data] Json False show ?thesis by auto
      qed
    qed
  qed
  from absent malformed null raises parsed throws show ?thesis
    by blast
qed

theorem loadData_defaults_for_falsy_fields_witness:
  "map_sum id (\<lambda>s. (workDuration s, breakDuration s, sessionCount s, todayFocusMinutes s,
       currentStreak s, timeRemaining s))
     (loadData ''Mon Nov 02 2026'' (initial_fields stored_damaged None)) =
     Inr (JNum (- 5), JStr ''abc'', JNum 0, JNum 0, JNum 0, JNum (- 5)) \<and>
   loadData ''Mon Nov 02 2026'' (initial_fields Malformed None) = Inl SyntaxError \<and>
   loadData ''Mon Nov 02 2026'' (initial_fields EmptyText None) =
     Inr (initial_fields EmptyText None) \<and>
   loadData ''Mon Nov 02 2026'' (initial_fields stored_unconvertible None) = Inl TypeError"
proof -
  let ?data = "JObject
        [(''workDuration'', JNum (- 5)), (''breakDuration'', JStr ''abc''),
         (''sessionCount'', JNull), (''currentStreak'', JNum 0),
         (''lastDate'', JStr ''Mon Nov 02 2026'')]"
  have r: "read_prop ?data ''workDuration'' = JNum (- 5)"
    "read_prop ?data ''breakDuration'' = JStr ''abc''"
    "read_prop ?data ''sessionCount'' = JNull"
    "read_prop ?data ''todayFocusMinutes'' = JUndefined"
    "read_prop ?data ''currentStreak'' = JNum 0"
    "read_prop ?data ''lastDate'' = JStr ''Mon Nov 02 2026''"
    by (simp_all add: read_prop_def)
  have p: "pomodoroData (initial_fields stored_damaged None) = Json ?data \<and>
      ?data \<noteq> JNull \<and> ?data \<noteq> JUndefined \<and>
      \<not> conversion_throws (read_prop ?data ''workDuration'') \<and>
      \<not> conversion_throws (read_prop ?data ''breakDuration'')"
    unfolding r by (simp add: stored_damaged_def initial_fields_def)
  note t = loadData_defaults_for_falsy_fields
    [of "initial_fields stored_damaged None" "''Mon Nov 02 2026''"]
  from t [THEN conjunct2, THEN conjunct2, THEN conjunct2, THEN conjunct2, THEN conjunct2,
      rule_format, OF p]
  have a: "map_sum id (\<lambda>s. (workDuration s, breakDuration s, sessionCount s,
       todayFocusMinutes s, currentStreak s, timeRemaining s))
     (loadData ''Mon Nov 02 2026'' (initial_fields stored_damaged None)) =
     Inr (JNum (- 5), JStr ''abc'', JNum 0, JNum 0, JNum 0, JNum (- 5))"
    unfolding r by auto
  have b: "loadData ''Mon Nov 02 2026'' (initial_fields Malformed None) = Inl SyntaxError"
    using loadData_defaults_for_falsy_fields
      [of "initial_fields Malformed None" "''Mon Nov 02 2026''"]
    by (simp add: initial_fields_def)
  have c: "loadData ''Mon Nov 02 2026'' (initial_fields EmptyText None) =
     Inr (initial_fields EmptyText None)"
    using loadData_defaults_for_falsy_fields
      [of "initial_fields EmptyText None" "''Mon Nov 02 2026''"]
    by (simp add: initial_fields_def loadSound_def)
  let ?bad = "JObject
        [(''workDuration'', JObject [(''valueOf'', JNum 1), (''toString'', JNum 1)]),
         (''breakDuration'', JNum 300)]"
  have u: "pomodoroData (initial_fields stored_unconvertible None) = Json ?bad \<and>
      (conversion_throws (read_prop ?bad ''workDuration'') \<or>
       conversion_throws (read_prop ?bad ''breakDuration''))"
    by (simp add: stored_unconvertible_def initial_fields_def read_prop_def)
  note t' = loadData_defaults_for_falsy_fields
    [of "initial_fields stored_unconvertible None" "''Mon Nov 02 2026''"]
  from t' [THEN conjunct2, THEN conjunct2, THEN conjunct2, THEN conjunct1, rule_format, OF u]
  have d: "loadData ''Mon Nov 02 2026'' (initial_fields stored_unconvertible None) =
      Inl TypeError" .
  from a b c d show ?thesis
    by blast
qed

text \<open>
  Claim C6, as stated, fails: a stored text that does not parse makes the constructor
  raise, and so do the stored text null and a stored duration that cannot be converted
  to a number; a negative duration and a non-numeric one are loaded as they are, not
  replaced by 1500 and 300.
\<close>

theorem loadData_raises_and_keeps_malformed:
  "new_PomodoroTimer ''Mon Nov 02 2026'' Malformed None = Inl SyntaxError \<and>
   new_PomodoroTimer ''Mon Nov 02 2026'' (Json JNull) None = Inl TypeError \<and>
   new_PomodoroTimer ''Mon Nov 02 2026'' stored_unconvertible None = Inl TypeError \<and>
   map_sum id (\<lambda>s. (workDuration s, breakDuration s))
     (new_PomodoroTimer ''Mon Nov 02 2026'' stored_damaged None) =
     Inr (JNum (- 5), JStr ''abc'') \<and>
   map_sum id numeric (new_PomodoroTimer ''Mon Nov 02 2026'' stored_damaged None) = Inr None"
  by (simp add: new_PomodoroTimer_def updateUI_loaded_def loadData_def loadTimerData_def
      loadSound_def initial_fields_def stored_damaged_def stored_unconvertible_def
      read_prop_def js_or_def numeric_def ui_defs Let_def)

subsection \<open>Counting down\<close>

lemma tick_counts_down:
  assumes "1 < timeRemaining s"
  shows "tick today s =
    s\<lparr>timeRemaining := timeRemaining s - 1,
      calls := calls s @ [UpdateDisplay, UpdateProgressRing]\<rparr>"
  using assms by (simp add: tick_def Let_def ui_defs)

lemma tick_completes:
  assumes "timeRemaining s \<le> 1"
  shows "tick today s = complete today (s\<lparr>timeRemaining := timeRemaining s - 1\<rparr>)"
  using assms by (simp add: tick_def Let_def)

text \<open>
  \<open>n\<close> ticks of a timer with more than \<open>n\<close> seconds left take exactly \<open>n\<close>
  seconds off, one each, and complete nothing.
\<close>

lemma ticks_count_down:
  "int n < timeRemaining s \<Longrightarrow>
     timeRemaining ((tick today ^^ n) s) = timeRemaining s - int n \<and>
     completions ((tick today ^^ n) s) = completions s \<and>
     isRunning ((tick today ^^ n) s) = isRunning s \<and>
     intervals ((tick today ^^ n) s) = intervals s"
proof (induction n)
  case 0
  show ?case by simp
next
  case (Suc n)
  let ?t = "(tick today ^^ n) s"
  from Suc have ih: "timeRemaining ?t = timeRemaining s - int n"
    "completions ?t = completions s" "isRunning ?t = isRunning s"
    "intervals ?t = intervals s"
    by simp_all
  from Suc.prems ih(1) have "1 < timeRemaining ?t"
    by simp
  from tick_counts_down [OF this, of today] ih show ?case
    by (simp add: completions_def)
qed

text \<open>
  The tick that reaches 0 completes once, and the completion ends the subscription:
  no tick of it can be delivered afterwards.
\<close>

lemma last_tick_completes_once:
  assumes "one_subscription s" and "timeRemaining s = 1"
  shows "timeRemaining (tick today s) = 0 \<and>
    completions (tick today s) = Suc (completions s) \<and>
    \<not> isRunning (tick today s) \<and> intervals (tick today s) = {} \<and>
    (\<forall>h. \<not> enabled (IntervalFires h) (tick today s))"
proof -
  let ?s = "s\<lparr>timeRemaining := timeRemaining s - 1\<rparr>"
  have t: "tick today s = complete today ?s"
    using assms(2) by (simp add: tick_completes)
  have "one_subscription ?s"
    using assms(1) by (simp add: one_subscription_def)
  then have "one_subscription (complete today ?s)"
    using one_subscription_same [OF same_complete one_subscription_pause] by blast
  moreover have "\<not> isRunning (complete today ?s)"
    by (simp add: complete_stops)
  ultimately have "intervals (complete today ?s) = {}"
    by (simp add: one_subscription_def)
  moreover have "completions ?s = completions s"
    by (simp add: completions_def)
  ultimately show ?thesis
    unfolding t using assms(2)
    by (simp add: timeRemaining_complete completions_complete complete_stops)
qed

lemma pending_switch_kept:
  "pendingSwitches (pause s) = pendingSwitches s \<and>
   pendingSwitches (reset s) = pendingSwitches s \<and>
   pendingSwitches (skip s) = pendingSwitches s \<and>
   pendingSwitches (start s) = pendingSwitches s \<and>
   pendingSwitches (complete today s) = Suc (pendingSwitches s)"
  by (simp add: pause_keeps reset_fields complete_stops skip_def switchMode_def start_def
      ui_defs Let_def)

text \<open>
  The events of the two examples below: a first visit, start, the page hidden at
  1000 ms and shown again 1499 seconds later (one second is left), and the tick that
  reaches 0 and completes the work session.
\<close>

lemma work_session_completed:
  "map_option (\<lambda>s. (isWorkMode s, timeRemaining s, isRunning s, completions s,
       sessionCount s, pendingSwitches s, intervals s))
     (run a_day [ClickStartPause, VisibilityChange True 1000, VisibilityChange False 1500000,
       IntervalFires 1] fresh_timer) =
   Some (True, 0, False, 1, 1, 1, {})"
  by (simp add: control_defs ui_defs Let_def fresh_timer_def a_day_def Math_round_div_def
      completions_def js_add_safe)

text \<open>
  Claim C1 holds for each tick above 0 (\<open>ticks_count_down\<close>) and for the tick that
  reaches 0 (\<open>last_tick_completes_once\<close>), but not for a tick delivered at 0. After
  the completion the timer stays at 0 in the same mode until the deferred switch, 1.5
  seconds later, and the start button is live: a click within that time starts a new
  interval, whose first tick finds 0, goes to -1 and, since that is \<open>\<le> 0\<close>, runs
  \<^verbatim>\<open>complete()\<close> a second time, counting the session twice.
\<close>

theorem tick_at_zero_completes_again:
  "map_option (\<lambda>s. (timeRemaining s, completions s, sessionCount s, todayFocusMinutes s))
     (run a_day [ClickStartPause, VisibilityChange True 1000, VisibilityChange False 1500000,
       IntervalFires 1] fresh_timer) =
   Some (0, 1, 1, 25) \<and>
   map_option (\<lambda>s. (timeRemaining s, completions s, sessionCount s, todayFocusMinutes s))
     (run a_day [ClickStartPause, VisibilityChange True 1000, VisibilityChange False 1500000,
       IntervalFires 1, ClickStartPause, IntervalFires 2] fresh_timer) =
   Some (- 1, 2, 2, 50)"
  by (simp add: control_defs ui_defs Let_def fresh_timer_def a_day_def Math_round_div_def
      completions_def js_add_safe)

text \<open>
  Claim C7 fails on the code: the handle of the deferred switch is dropped, and
  \<^verbatim>\<open>pause()\<close>, \<^verbatim>\<open>reset()\<close>, \<^verbatim>\<open>skip()\<close> and \<^verbatim>\<open>complete()\<close> leave it pending
  (\<open>pending_switch_kept\<close>). After a completed work session, a skip within the 1.5
  seconds goes to break mode, and the stale switch then fires on that changed state and
  goes back to work mode.
\<close>

theorem stale_switch_fires_after_skip:
  "map_option (\<lambda>s. (isWorkMode s, timeRemaining s, pendingSwitches s))
     (run a_day [ClickStartPause, VisibilityChange True 1000, VisibilityChange False 1500000,
       IntervalFires 1] fresh_timer) =
   Some (True, 0, 1) \<and>
   map_option (\<lambda>s. (isWorkMode s, timeRemaining s, pendingSwitches s))
     (run a_day [ClickStartPause, VisibilityChange True 1000, VisibilityChange False 1500000,
       IntervalFires 1, ClickSkip] fresh_timer) =
   Some (False, 300, 1) \<and>
   map_option (\<lambda>s. (isWorkMode s, timeRemaining s, pendingSwitches s))
     (run a_day [ClickStartPause, VisibilityChange True 1000, VisibilityChange False 1500000,
       IntervalFires 1, ClickSkip, TimeoutFires] fresh_timer) =
   Some (True, 1500, 0)"
  by (simp add: control_defs ui_defs Let_def fresh_timer_def a_day_def Math_round_div_def
      js_add_safe)

end
